theory Spec2Isabelle
  imports Main
begin

section \<open>JavaScript built-ins used by the server\<close>

text \<open>
  The server (\<^verbatim>\<open>src/app.js\<close>) is a single Express middleware around a handful of
  helper functions. Its strings are modelled as \<open>string\<close>, the objects it uses as
  dictionaries as maps, and the built-in operations it calls are written out below with
  the results JavaScript gives.
\<close>

text \<open>
  \<^verbatim>\<open>s.split(c)\<close> for a one-character separator: the pieces between the separators, so
  a string with \<open>n\<close> separators has \<open>n + 1\<close> pieces and the empty string has one.
\<close>

fun str_split :: "char \<Rightarrow> string \<Rightarrow> string list" where
  "str_split c [] = [[]]"
| "str_split c (x # xs) =
     (if x = c then [] # str_split c xs
      else (case str_split c xs of [] \<Rightarrow> [[x]] | p # ps \<Rightarrow> (x # p) # ps))"

text \<open>\<^verbatim>\<open>parts.join(sep)\<close>.\<close>

fun str_join :: "string \<Rightarrow> string list \<Rightarrow> string" where
  "str_join sep [] = []"
| "str_join sep [p] = p"
| "str_join sep (p # q # ps) = p @ sep @ str_join sep (q # ps)"

text \<open>\<^verbatim>\<open>parts.splice(i, 0, x)\<close>: insert \<open>x\<close> before index \<open>i\<close> (at the end when \<open>i\<close> is past it).\<close>

definition splice_insert :: "nat \<Rightarrow> 'a \<Rightarrow> 'a list \<Rightarrow> 'a list" where
  "splice_insert i x xs = take i xs @ x # drop i xs"

text \<open>
  The value of a property read \<^verbatim>\<open>obj[key]\<close> on an object literal whose own properties
  are strings: the own property when there is one, otherwise the member the object
  inherits from \<^verbatim>\<open>Object.prototype\<close> under that name (a function, or the prototype
  itself for \<^verbatim>\<open>__proto__\<close>), otherwise \<^verbatim>\<open>undefined\<close>.
\<close>

datatype jsval = Undefined | Str string | Inherited string

definition object_prototype_names :: "string list" where
  "object_prototype_names =
     [''constructor'', ''__defineGetter__'', ''__defineSetter__'', ''hasOwnProperty'',
      ''__lookupGetter__'', ''__lookupSetter__'', ''isPrototypeOf'',
      ''propertyIsEnumerable'', ''toString'', ''valueOf'', ''__proto__'',
      ''toLocaleString'']"

definition get_prop :: "(string \<rightharpoonup> string) \<Rightarrow> string \<Rightarrow> jsval" where
  "get_prop obj k =
     (case obj k of
        Some v \<Rightarrow> Str v
      | None \<Rightarrow> if k \<in> set object_prototype_names then Inherited k else Undefined)"

text \<open>Truthiness, as \<^verbatim>\<open>if (v)\<close> and \<^verbatim>\<open>!v\<close> test it.\<close>

fun truthy :: "jsval \<Rightarrow> bool" where
  "truthy Undefined = False"
| "truthy (Str s) = (s \<noteq> [])"
| "truthy (Inherited k) = True"

text \<open>The string \<^verbatim>\<open>v + '...'\<close> concatenates with.\<close>

fun to_str :: "jsval \<Rightarrow> string" where
  "to_str Undefined = ''undefined''"
| "to_str (Str s) = s"
| "to_str (Inherited k) =
     (if k = ''__proto__'' then ''[object Object]''
      else ''function '' @ (if k = ''constructor'' then ''Object'' else k) @ ''() { [native code] }'')"

text \<open>\<^verbatim>\<open>if (s)\<close> on a value that is a string or absent: present and not empty.\<close>

definition present :: "string option \<Rightarrow> bool" where
  "present s = (case s of None \<Rightarrow> False | Some v \<Rightarrow> v \<noteq> [])"

section \<open>Configuration and the route table\<close>

text \<open>The three settings read from the environment at start-up, defaults applied.\<close>

record config =
  CUSTOM_DOMAIN :: string
  MODE :: string
  TARGET_UPSTREAM :: string

definition dockerHub :: string where
  "dockerHub = ''https://registry-1.docker.io''"

definition routes :: "config \<Rightarrow> (string \<rightharpoonup> string)" where
  "routes cfg =
     [''docker.'' @ CUSTOM_DOMAIN cfg \<mapsto> dockerHub,
      ''quay.'' @ CUSTOM_DOMAIN cfg \<mapsto> ''https://quay.io'',
      ''gcr.'' @ CUSTOM_DOMAIN cfg \<mapsto> ''https://gcr.io'',
      ''k8s-gcr.'' @ CUSTOM_DOMAIN cfg \<mapsto> ''https://k8s.gcr.io'',
      ''k8s.'' @ CUSTOM_DOMAIN cfg \<mapsto> ''https://registry.k8s.io'',
      ''ghcr.'' @ CUSTOM_DOMAIN cfg \<mapsto> ''https://ghcr.io'',
      ''cloudsmith.'' @ CUSTOM_DOMAIN cfg \<mapsto> ''https://docker.cloudsmith.io'',
      ''ecr.'' @ CUSTOM_DOMAIN cfg \<mapsto> ''https://public.ecr.aws'',
      ''docker-staging.'' @ CUSTOM_DOMAIN cfg \<mapsto> dockerHub]"

definition routeByHosts :: "config \<Rightarrow> string \<Rightarrow> jsval" where
  "routeByHosts cfg host =
     (if truthy (get_prop (routes cfg) host) then get_prop (routes cfg) host
      else if MODE cfg = ''debug'' then Str (TARGET_UPSTREAM cfg)
      else Str '''')"

section \<open>The challenge parser\<close>

text \<open>
  \<^verbatim>\<open>parseAuthenticate\<close> collects the matches of the regular expression
  \<^verbatim>\<open>/(?<=\=")(?:\\.|[^"\\])*(?=")/g\<close>. Its body \<^verbatim>\<open>(?:\\.|[^"\\])*\<close> reads a backslash
  together with the character after it (any but a line terminator), or one character
  that is neither a double quote nor a backslash, as often as it can. \<open>re_body\<close> returns
  what it reads and what is left. Giving back part of what was read never helps the
  look-ahead: the character after a shorter reading is one the body has read, so it is
  not an unescaped double quote.
\<close>

definition dquote :: char where
  "dquote = CHR 0x22"

definition backslash :: char where
  "backslash = CHR 0x5C"

definition line_terminator :: "char \<Rightarrow> bool" where
  "line_terminator c = (c = CHR 0x0A \<or> c = CHR 0x0D)"

fun re_body :: "string \<Rightarrow> string \<times> string" where
  "re_body [] = ([], [])"
| "re_body [c] = (if c = dquote \<or> c = backslash then ([], [c]) else ([c], []))"
| "re_body (c # d # cs) =
     (if c = backslash then
        (if line_terminator d then ([], c # d # cs)
         else (case re_body cs of (m, r) \<Rightarrow> (c # d # m, r)))
      else if c = dquote then ([], c # d # cs)
      else (case re_body (d # cs) of (m, r) \<Rightarrow> (c # m, r)))"

text \<open>
  The match at one position, if any: the look-behind wants \<^verbatim>\<open>="\<close> right before the
  position (\<open>behind\<close> holds the characters before it, nearest first), the look-ahead a
  double quote right after the body.
\<close>

definition re_match_here :: "string \<Rightarrow> string \<Rightarrow> string option" where
  "re_match_here behind s =
     (case behind of
        b # a # _ \<Rightarrow>
          if a = CHR ''='' \<and> b = dquote then
            (case re_body s of
               (m, r) \<Rightarrow> (case r of [] \<Rightarrow> None | x # _ \<Rightarrow> if x = dquote then Some m else None))
          else None
      | _ \<Rightarrow> None)"

text \<open>
  \<^verbatim>\<open>str.match(re)\<close> with the \<^verbatim>\<open>g\<close> flag: every position from \<^verbatim>\<open>lastIndex\<close> on is tried
  in turn; after a match \<^verbatim>\<open>lastIndex\<close> is the match's end, or one further when the match
  is empty. \<open>skip\<close> counts the positions still before \<^verbatim>\<open>lastIndex\<close>.
\<close>

fun re_scan :: "nat \<Rightarrow> string \<Rightarrow> string \<Rightarrow> string list" where
  "re_scan skip behind [] =
     (case (if skip = 0 then re_match_here behind [] else None) of
        None \<Rightarrow> []
      | Some m \<Rightarrow> [m])"
| "re_scan skip behind (c # cs) =
     (case (if skip = 0 then re_match_here behind (c # cs) else None) of
        None \<Rightarrow> re_scan (skip - 1) (c # behind) cs
      | Some m \<Rightarrow> m # re_scan (length m - 1) (c # behind) cs)"

definition re_match_all :: "string \<Rightarrow> string list" where
  "re_match_all s = re_scan 0 [] s"

record challenge =
  realm :: string
  service :: string

datatype error =
    InvalidAuthenticate string
  | InvalidURL string
  | FetchFailed

definition parseAuthenticate :: "string \<Rightarrow> error + challenge" where
  "parseAuthenticate authenticateStr =
     (case re_match_all authenticateStr of
        m0 # m1 # _ \<Rightarrow> Inr \<lparr>realm = m0, service = m1\<rparr>
      | _ \<Rightarrow> Inl (InvalidAuthenticate authenticateStr))"

section \<open>Requests, upstream calls and replies\<close>

text \<open>
  A parsed URL with a host, as the platform's \<^verbatim>\<open>URL\<close> class holds it: \<open>port\<close> is empty
  for the scheme's default port, \<open>query\<close> and \<open>fragment\<close> are \<open>None\<close> when the text
  of the URL has no \<^verbatim>\<open>?\<close> or no \<^verbatim>\<open>#\<close> (and \<open>Some []\<close> when nothing follows the
  sign), and \<open>searchParams\<close> holds the decoded pairs of the query.
  \<^verbatim>\<open>new URL(url)\<close> copies a URL, and an
  assignment to \<^verbatim>\<open>pathname\<close> is the update of that field: the only path the server
  assigns is joined from the pieces of a path the class has already normalised and the
  piece \<^verbatim>\<open>library\<close>.
\<close>

record url =
  protocol :: string
  username :: string
  password :: string
  hostname :: string
  port :: string
  pathname :: string
  query :: "string option"
  fragment :: "string option"
  searchParams :: "(string \<times> string) list"

text \<open>\<^verbatim>\<open>url.host\<close>: the host name, with the port when there is one.\<close>

definition host :: "url \<Rightarrow> string" where
  "host u = (if port u = [] then hostname u else hostname u @ '':'' @ port u)"

text \<open>\<^verbatim>\<open>url.search\<close>: empty without a query and with an empty one.\<close>

definition search :: "url \<Rightarrow> string" where
  "search u = (case query u of None \<Rightarrow> [] | Some q \<Rightarrow> if q = [] then [] else ''?'' @ q)"

text \<open>The credentials as the serialisation of a URL writes them before the host.\<close>

definition userinfo :: "url \<Rightarrow> string" where
  "userinfo u =
     (if username u = [] \<and> password u = [] then []
      else username u @ (if password u = [] then [] else '':'' @ password u) @ ''@'')"

text \<open>
  \<^verbatim>\<open>url.toString()\<close>, the serialisation of the URL: the scheme, the credentials, the
  host with its port, the path, the query behind its \<^verbatim>\<open>?\<close> when there is one, empty
  or not, and the fragment behind its \<^verbatim>\<open>#\<close> likewise.
\<close>

definition href :: "url \<Rightarrow> string" where
  "href u =
     protocol u @ ''//'' @ userinfo u @ host u @ pathname u
     @ (case query u of None \<Rightarrow> [] | Some q \<Rightarrow> ''?'' @ q)
     @ (case fragment u of None \<Rightarrow> [] | Some f \<Rightarrow> ''#'' @ f)"

text \<open>\<^verbatim>\<open>url.searchParams.get(name)\<close>: the first value under the name, if any.\<close>

definition searchParams_get :: "url \<Rightarrow> string \<Rightarrow> string option" where
  "searchParams_get u name = map_of (searchParams u) name"

type_synonym header_map = "string \<rightharpoonup> string"

text \<open>
  What the middleware reads of the Express request: \<^verbatim>\<open>req.method\<close>, \<^verbatim>\<open>req.hostname\<close>
  (the \<^verbatim>\<open>Host\<close> header without its port), \<^verbatim>\<open>req.headers\<close> (names in lower case), the
  result of \<^verbatim>\<open>new URL(req.url, `http://${req.headers.host}`)\<close> (\<open>None\<close> when the
  constructor throws), and the body, which the server only passes on. The route is
  chosen by \<^verbatim>\<open>req.hostname\<close>; the host that the replies of the server name is the one of
  the URL.
\<close>

record request =
  req_method :: string
  req_hostname :: string
  req_headers :: header_map
  req_url :: "url option"
  req_body :: string

text \<open>
  One call of \<^verbatim>\<open>fetch\<close>: the URL, the \<^verbatim>\<open>searchParams.set\<close> calls made on it before the
  call (in order), and the options. Every call of the server follows redirects. Header
  names are written as the source writes them: \<^verbatim>\<open>Authorization\<close> where the server sets
  the header itself, lower case where it copies the headers of the request.
\<close>

record fetch_request =
  fr_url :: url
  fr_params :: "(string \<times> string) list"
  fr_method :: string
  fr_headers :: header_map
  fr_body :: "string option"

text \<open>What the server reads of a \<^verbatim>\<open>fetch\<close> response; header names are in lower case.\<close>

record fetch_response =
  status :: nat
  headers :: header_map
  body :: "string option"

text \<open>
  The platform and the network: the \<^verbatim>\<open>URL\<close> constructor (\<open>None\<close> when it throws) and
  \<^verbatim>\<open>fetch\<close> (\<open>None\<close> when the promise is rejected).
\<close>

record env =
  URL :: "string \<Rightarrow> url option"
  fetch :: "fetch_request \<Rightarrow> fetch_response option"

text \<open>
  What the client is sent, by the Express call that sends it:
  \<^verbatim>\<open>res.set(headers); res.status(n).json(obj)\<close>, \<^verbatim>\<open>res.redirect(n, location)\<close>,
  \<^verbatim>\<open>streamResponse(resp, res)\<close> (status, headers and body of an upstream response as they
  are) and \<^verbatim>\<open>res.status(n).send(text)\<close>.
\<close>

datatype payload = Routes "string \<rightharpoonup> string" | Message string

datatype reply =
    Json nat header_map payload
  | Redirect nat string
  | Relay fetch_response
  | Send nat string

text \<open>
  A step of the handler gives its result, or the error it threw, and the upstream calls
  it made, in order.
\<close>

type_synonym 'a outcome = "(error + 'a) \<times> fetch_request list"

definition do_fetch :: "env \<Rightarrow> fetch_request \<Rightarrow> fetch_response outcome" where
  "do_fetch e rq =
     (case fetch e rq of
        None \<Rightarrow> (Inl FetchFailed, [rq])
      | Some resp \<Rightarrow> (Inr resp, [rq]))"

section \<open>The helpers\<close>

definition fetchToken :: "env \<Rightarrow> challenge \<Rightarrow> string option \<Rightarrow> string option \<Rightarrow> fetch_response outcome" where
  "fetchToken e wwwAuthenticate scope authorization =
     (case URL e (realm wwwAuthenticate) of
        None \<Rightarrow> (Inl (InvalidURL (realm wwwAuthenticate)), [])
      | Some u \<Rightarrow>
          do_fetch e
            \<lparr>fr_url = u,
             fr_params =
               (if service wwwAuthenticate \<noteq> [] then [(''service'', service wwwAuthenticate)] else [])
               @ (if present scope then [(''scope'', the scope)] else []),
             fr_method = ''GET'',
             fr_headers =
               (if present authorization then [''Authorization'' \<mapsto> the authorization]
                else Map.empty),
             fr_body = None\<rparr>)"

definition responseUnauthorized :: "config \<Rightarrow> url \<Rightarrow> reply" where
  \<open>responseUnauthorized cfg u =
     Json 401
       (if MODE cfg = ''debug'' then
          [''WWW-Authenticate'' \<mapsto>
             ''Bearer realm="http://'' @ host u @ ''/v2/auth",service="docker-repository-proxy"'']
        else
          [''WWW-Authenticate'' \<mapsto>
             ''Bearer realm="https://'' @ hostname u @ ''/v2/auth",service="docker-repository-proxy"''])
       (Message ''UNAUTHORIZED'')\<close>

section \<open>The middleware\<close>

text \<open>The branch for \<^verbatim>\<open>/v2/\<close>: the probe.\<close>

definition probe :: "env \<Rightarrow> config \<Rightarrow> jsval \<Rightarrow> url \<Rightarrow> string option \<Rightarrow> reply outcome" where
  "probe e cfg upstream u authorization =
     (case URL e (to_str upstream @ ''/v2/'') of
        None \<Rightarrow> (Inl (InvalidURL (to_str upstream @ ''/v2/'')), [])
      | Some newUrl \<Rightarrow>
          (case do_fetch e
                  \<lparr>fr_url = newUrl, fr_params = [], fr_method = ''GET'',
                   fr_headers =
                     (if present authorization then [''Authorization'' \<mapsto> the authorization]
                      else Map.empty),
                   fr_body = None\<rparr> of
             (Inl err, calls) \<Rightarrow> (Inl err, calls)
           | (Inr resp, calls) \<Rightarrow>
               if status resp = 401 then (Inr (responseUnauthorized cfg u), calls)
               else (Inr (Relay resp), calls)))"

text \<open>
  The rewriting of the scope in the branch for \<^verbatim>\<open>/v2/auth\<close>:
  \<^verbatim>\<open>repository:busybox:pull\<close> becomes \<^verbatim>\<open>repository:library/busybox:pull\<close>.
\<close>

definition rewrite_scope :: "bool \<Rightarrow> string option \<Rightarrow> string option" where
  "rewrite_scope isDockerHub scope =
     (if present scope \<and> isDockerHub then
        (let scopeParts = str_split CHR '':'' (the scope) in
         if length scopeParts = 3 \<and> CHR ''/'' \<notin> set (scopeParts ! 1) then
           Some (str_join '':'' (scopeParts[1 := ''library/'' @ scopeParts ! 1]))
         else scope)
      else scope)"

text \<open>The branch for \<^verbatim>\<open>/v2/auth\<close>: the token exchange.\<close>

definition auth :: "env \<Rightarrow> jsval \<Rightarrow> bool \<Rightarrow> url \<Rightarrow> string option \<Rightarrow> reply outcome" where
  "auth e upstream isDockerHub u authorization =
     (case URL e (to_str upstream @ ''/v2/'') of
        None \<Rightarrow> (Inl (InvalidURL (to_str upstream @ ''/v2/'')), [])
      | Some newUrl \<Rightarrow>
          (case do_fetch e
                  \<lparr>fr_url = newUrl, fr_params = [], fr_method = ''GET'',
                   fr_headers = Map.empty, fr_body = None\<rparr> of
             (Inl err, calls) \<Rightarrow> (Inl err, calls)
           | (Inr resp, calls) \<Rightarrow>
               if status resp \<noteq> 401 then (Inr (Relay resp), calls)
               else if \<not> present (headers resp ''www-authenticate'') then (Inr (Relay resp), calls)
               else
                 (case parseAuthenticate (the (headers resp ''www-authenticate'')) of
                    Inl err \<Rightarrow> (Inl err, calls)
                  | Inr wwwAuthenticate \<Rightarrow>
                      (case fetchToken e wwwAuthenticate
                              (rewrite_scope isDockerHub (searchParams_get u ''scope''))
                              authorization of
                         (Inl err, calls') \<Rightarrow> (Inl err, calls @ calls')
                       | (Inr tokenResp, calls') \<Rightarrow> (Inr (Relay tokenResp), calls @ calls')))))"

text \<open>The last part of the middleware: the generic forwarding.\<close>

definition forward :: "env \<Rightarrow> config \<Rightarrow> jsval \<Rightarrow> url \<Rightarrow> request \<Rightarrow> reply outcome" where
  "forward e cfg upstream u req =
     (case URL e (to_str upstream @ pathname u @ search u) of
        None \<Rightarrow> (Inl (InvalidURL (to_str upstream @ pathname u @ search u)), [])
      | Some newUrl \<Rightarrow>
          (case URL e (to_str upstream) of
             None \<Rightarrow> (Inl (InvalidURL (to_str upstream)), [])
           | Some up \<Rightarrow>
               (case do_fetch e
                       \<lparr>fr_url = newUrl, fr_params = [], fr_method = req_method req,
                        fr_headers = ((req_headers req)(''host'' \<mapsto> host up))(''accept-encoding'' := None),
                        fr_body =
                          (if req_method req \<noteq> ''GET'' \<and> req_method req \<noteq> ''HEAD''
                           then Some (req_body req) else None)\<rparr> of
                  (Inl err, calls) \<Rightarrow> (Inl err, calls)
                | (Inr upstreamResp, calls) \<Rightarrow>
                    if status upstreamResp = 401 then (Inr (responseUnauthorized cfg u), calls)
                    else (Inr (Relay upstreamResp), calls))))"

text \<open>The body of the \<^verbatim>\<open>try\<close> block of the middleware.\<close>

definition handle :: "env \<Rightarrow> config \<Rightarrow> request \<Rightarrow> reply outcome" where
  "handle e cfg req =
     (let upstream = routeByHosts cfg (req_hostname req) in
      if \<not> truthy upstream then (Inr (Json 404 Map.empty (Routes (routes cfg))), [])
      else
        (let isDockerHub = (upstream = Str dockerHub);
             authorization = req_headers req ''authorization''
         in case req_url req of
              None \<Rightarrow> (Inl (InvalidURL []), [])
            | Some u \<Rightarrow>
                if pathname u = ''/v2/'' then probe e cfg upstream u authorization
                else if pathname u = ''/v2/auth'' then auth e upstream isDockerHub u authorization
                else if isDockerHub \<and> length (str_split CHR ''/'' (pathname u)) = 5 then
                  (Inr (Redirect 301
                          (href (u\<lparr>pathname :=
                                     str_join ''/''
                                       (splice_insert 2 ''library''
                                          (str_split CHR ''/'' (pathname u)))\<rparr>))),
                   [])
                else forward e cfg upstream u req))"

text \<open>
  The middleware with the error handler behind it: whatever the \<^verbatim>\<open>try\<close> block throws
  goes to \<^verbatim>\<open>next(err)\<close> and is answered with the fixed 500 reply.
\<close>

definition app :: "env \<Rightarrow> config \<Rightarrow> request \<Rightarrow> reply \<times> fetch_request list" where
  "app e cfg req =
     (case handle e cfg req of
        (Inl err, calls) \<Rightarrow> (Send 500 ''Internal Server Error'', calls)
      | (Inr r, calls) \<Rightarrow> (r, calls))"

section \<open>The earlier variant of the server\<close>

text \<open>
  The repository keeps an earlier variant of the server, which buffers bodies where
  \<^verbatim>\<open>src/app.js\<close> streams them. Its router, its challenge parser, its scope rewriting, its
  redirect and its forwarding of headers read as those above; its \<^verbatim>\<open>responseUnauthorized\<close>
  names another service.
\<close>

definition responseUnauthorized_earlier :: "config \<Rightarrow> url \<Rightarrow> reply" where
  \<open>responseUnauthorized_earlier cfg u =
     Json 401
       (if MODE cfg = ''debug'' then
          [''WWW-Authenticate'' \<mapsto>
             ''Bearer realm="http://'' @ host u @ ''/v2/auth",service="cloudflare-docker-proxy"'']
        else
          [''WWW-Authenticate'' \<mapsto>
             ''Bearer realm="https://'' @ hostname u @ ''/v2/auth",service="cloudflare-docker-proxy"''])
       (Message ''UNAUTHORIZED'')\<close>

section \<open>The specification's wording, for comparison\<close>

text \<open>
  The Unauthorized Response as the specification words it: one scheme chosen by the mode,
  one host of the proxy, the fixed path and service.
\<close>

definition unauthorized_spec :: "config \<Rightarrow> string \<Rightarrow> reply" where
  \<open>unauthorized_spec cfg proxy_host =
     Json 401
       [''WWW-Authenticate'' \<mapsto>
          ''Bearer realm="'' @ (if MODE cfg = ''debug'' then ''http'' else ''https'') @ ''://''
            @ proxy_host @ ''/v2/auth",service="docker-repository-proxy"'']
       (Message ''UNAUTHORIZED'')\<close>

section \<open>Example configurations, requests and upstreams\<close>

definition production :: config where
  "production = \<lparr>CUSTOM_DOMAIN = ''example.com'', MODE = ''production'', TARGET_UPSTREAM = []\<rparr>"

definition debugging :: config where
  "debugging =
     \<lparr>CUSTOM_DOMAIN = ''example.com'', MODE = ''debug'', TARGET_UPSTREAM = ''http://localhost:5000''\<rparr>"

text \<open>The URL of a request for \<open>path\<close> with the query \<open>q\<close> sent to \<open>name:p\<close>.\<close>

definition client_url :: "string \<Rightarrow> string \<Rightarrow> string \<Rightarrow> string option \<Rightarrow> (string \<times> string) list \<Rightarrow> url" where
  "client_url name p path q pairs =
     \<lparr>protocol = ''http:'', username = [], password = [], hostname = name, port = p,
      pathname = path, query = q, fragment = None, searchParams = pairs\<rparr>"

definition get_request :: "string \<Rightarrow> string \<Rightarrow> header_map \<Rightarrow> string \<Rightarrow> string option \<Rightarrow> (string \<times> string) list \<Rightarrow> request" where
  "get_request name p hdrs path q pairs =
     \<lparr>req_method = ''GET'', req_hostname = name,
      req_headers = hdrs(''host'' \<mapsto> (if p = [] then name else name @ '':'' @ p)),
      req_url = Some (client_url name p path q pairs), req_body = []\<rparr>"

definition registry_url :: "string \<Rightarrow> string \<Rightarrow> url" where
  "registry_url name path =
     \<lparr>protocol = ''https:'', username = [], password = [], hostname = name, port = [],
      pathname = path, query = None, fragment = None, searchParams = []\<rparr>"

text \<open>
  A platform that knows the addresses of the examples. The registries behind
  \<^verbatim>\<open>docker\<close> and \<^verbatim>\<open>k8s\<close> ask every anonymous caller to authenticate; their token
  service serves anonymous callers and turns away the credentials it is shown. The
  registry behind \<^verbatim>\<open>quay\<close> answers every caller, and the one behind \<^verbatim>\<open>ghcr\<close> cannot
  be reached.
\<close>

definition example_URL :: "string \<Rightarrow> url option" where
  "example_URL =
     map_of
       [(''https://registry-1.docker.io'', registry_url ''registry-1.docker.io'' ''/''),
        (''https://registry-1.docker.io/v2/'', registry_url ''registry-1.docker.io'' ''/v2/''),
        (''https://registry-1.docker.io/v2/library/busybox/manifests/latest'',
           registry_url ''registry-1.docker.io'' ''/v2/library/busybox/manifests/latest''),
        (''https://registry.k8s.io'', registry_url ''registry.k8s.io'' ''/''),
        (''https://registry.k8s.io/v2/'', registry_url ''registry.k8s.io'' ''/v2/''),
        (''https://registry.k8s.io/v2/pause/manifests/3.9'',
           registry_url ''registry.k8s.io'' ''/v2/pause/manifests/3.9''),
        (''https://quay.io/v2/'', registry_url ''quay.io'' ''/v2/''),
        (''https://ghcr.io/v2/'', registry_url ''ghcr.io'' ''/v2/''),
        (''https://auth.docker.io/token'', registry_url ''auth.docker.io'' ''/token'')]"

definition registry_challenge :: fetch_response where
  \<open>registry_challenge =
     \<lparr>status = 401,
      headers =
        [''www-authenticate'' \<mapsto>
           ''Bearer realm="https://auth.docker.io/token",service="registry.docker.io"''],
      body = None\<rparr>\<close>

definition token_refusal :: fetch_response where
  \<open>token_refusal =
     \<lparr>status = 401,
      headers = [''www-authenticate'' \<mapsto> ''Basic realm="https://auth.docker.io/token"''],
      body = None\<rparr>\<close>

definition token_granted :: fetch_response where
  "token_granted = \<lparr>status = 200, headers = Map.empty, body = Some ''{token}''\<rparr>"

definition manifest_served :: fetch_response where
  "manifest_served = \<lparr>status = 200, headers = Map.empty, body = Some ''{manifest}''\<rparr>"

definition registry_open :: fetch_response where
  "registry_open = \<lparr>status = 200, headers = Map.empty, body = Some ''{}''\<rparr>"

definition example_fetch :: "fetch_request \<Rightarrow> fetch_response option" where
  "example_fetch rq =
     (if hostname (fr_url rq) = ''auth.docker.io'' then
        (if fr_headers rq ''Authorization'' = None then Some token_granted
         else Some token_refusal)
      else if hostname (fr_url rq) = ''ghcr.io'' then None
      else if hostname (fr_url rq) = ''quay.io'' then Some registry_open
      else if fr_headers rq ''Authorization'' = None \<and> fr_headers rq ''authorization'' = None
        then Some registry_challenge
      else Some manifest_served)"

definition example_env :: env where
  "example_env = \<lparr>URL = example_URL, fetch = example_fetch\<rparr>"

section \<open>Splitting and joining\<close>

lemma str_split_not_Nil: "str_split c s \<noteq> []"
  by (induction s) (auto split: list.splits)

lemma str_split_Cons:
  "str_split c (x # xs) =
     (if x = c then [] # str_split c xs
      else (x # hd (str_split c xs)) # tl (str_split c xs))"
  using str_split_not_Nil [of c xs] by (cases "str_split c xs") auto

lemma str_split_no_sep: "p \<in> set (str_split c s) \<Longrightarrow> c \<notin> set p"
proof (induction s arbitrary: p)
  case Nil
  then show ?case by simp
next
  case (Cons x xs)
  obtain q qs where q: "str_split c xs = q # qs"
    using str_split_not_Nil [of c xs] by (cases "str_split c xs") auto
  with Cons show ?case by (auto split: if_splits)
qed

lemma str_join_Cons: "ps \<noteq> [] \<Longrightarrow> str_join sep (p # ps) = p @ sep @ str_join sep ps"
  by (cases ps) auto

lemma str_join_split: "str_join [c] (str_split c s) = s"
proof (induction s)
  case Nil
  then show ?case by simp
next
  case (Cons x xs)
  obtain q qs where q: "str_split c xs = q # qs"
    using str_split_not_Nil [of c xs] by (cases "str_split c xs") auto
  show ?case
  proof (cases "x = c")
    case True
    with Cons q show ?thesis by (simp add: str_join_Cons)
  next
    case False
    with Cons q show ?thesis by (cases qs) auto
  qed
qed

lemma str_split_append_no_sep:
  "c \<notin> set p \<Longrightarrow> str_split c (p @ s) = (p @ hd (str_split c s)) # tl (str_split c s)"
proof (induction p)
  case Nil
  then show ?case using str_split_not_Nil [of c s] by simp
next
  case (Cons a p)
  then show ?case by (auto simp: str_split_Cons)
qed

lemma str_split_single: "c \<notin> set p \<Longrightarrow> str_split c p = [p]"
  using str_split_append_no_sep [of c p "[]"] by simp

lemma str_split_join:
  "ps \<noteq> [] \<Longrightarrow> \<forall>p \<in> set ps. c \<notin> set p \<Longrightarrow> str_split c (str_join [c] ps) = ps"
proof (induction ps rule: list_nonempty_induct)
  case (single p)
  then show ?case by (simp add: str_split_single)
next
  case (cons p ps)
  then show ?case by (simp add: str_join_Cons str_split_append_no_sep)
qed

lemma length_str_split: "length (str_split c s) = Suc (length (filter (\<lambda>x. x = c) s))"
proof (induction s)
  case Nil
  then show ?case by simp
next
  case (Cons x xs)
  then show ?case using str_split_not_Nil [of c xs] by (cases "str_split c xs") auto
qed

lemma split_v2: "str_split CHR ''/'' ''/v2/'' = [[], ''v2'', []]"
  by simp

lemma split_v2_auth: "str_split CHR ''/'' ''/v2/auth'' = [[], ''v2'', ''auth'']"
  by simp

lemma five_segments_not_v2:
  assumes "length (str_split CHR ''/'' p) \<ge> 4"
  shows "p \<noteq> ''/v2/'' \<and> p \<noteq> ''/v2/auth''"
proof (intro conjI notI)
  assume "p = ''/v2/''"
  with assms split_v2 show False by simp
next
  assume "p = ''/v2/auth''"
  with assms split_v2_auth show False by simp
qed

section \<open>The route table and the router\<close>

lemma routes_nonempty: "routes cfg h = Some u \<Longrightarrow> u \<noteq> []"
  by (auto simp: routes_def dockerHub_def split: if_splits)

lemma routes_not_inherited: "h \<in> set object_prototype_names \<Longrightarrow> routes cfg h = None"
  unfolding object_prototype_names_def routes_def
  by (elim disjE rev_mp [of "h \<in> set _"]) simp

text \<open>A host name of the table resolves to the upstream the table gives it.\<close>

lemma routeByHosts_configured: "routes cfg h = Some u \<Longrightarrow> routeByHosts cfg h = Str u"
  using routes_nonempty [of cfg h u] by (simp add: routeByHosts_def get_prop_def)

text \<open>
  A host name that is neither in the table nor the name of a member of
  \<^verbatim>\<open>Object.prototype\<close> resolves to the fallback in debug mode and to the empty string
  otherwise.
\<close>

lemma routeByHosts_unknown:
  "routes cfg h = None \<Longrightarrow> h \<notin> set object_prototype_names \<Longrightarrow>
   routeByHosts cfg h = (if MODE cfg = ''debug'' then Str (TARGET_UPSTREAM cfg) else Str [])"
  by (simp add: routeByHosts_def get_prop_def)

text \<open>The name of a member of \<^verbatim>\<open>Object.prototype\<close> resolves to that member.\<close>

lemma routeByHosts_inherited:
  "h \<in> set object_prototype_names \<Longrightarrow> routeByHosts cfg h = Inherited h"
  by (simp add: routeByHosts_def get_prop_def routes_not_inherited)

text \<open>
  Claim C6. Every host name of the route table resolves to its configured upstream
  (\<open>routeByHosts_configured\<close>), whatever the path and the method, which the router does
  not read. A host name absent from the table should resolve to the empty string in
  production mode; \<^verbatim>\<open>constructor\<close> is absent from the table, and the router returns the
  function the table object inherits under that name.
\<close>

theorem routeByHosts_constructor:
  "routes production ''constructor'' = None
   \<and> MODE production \<noteq> ''debug''
   \<and> routeByHosts production ''constructor'' = Inherited ''constructor''
   \<and> routeByHosts production ''constructor'' \<noteq> Str []"
  by (simp add: routeByHosts_def get_prop_def routes_def object_prototype_names_def
        production_def)

section \<open>The challenge parser\<close>

lemmas parser_defs = parseAuthenticate_def re_match_all_def re_match_here_def dquote_def
  backslash_def line_terminator_def

text \<open>The parser returns the first two matches, and fails when there are fewer.\<close>

lemma parseAuthenticate_first_two:
  "re_match_all s = m0 # m1 # ms \<Longrightarrow> parseAuthenticate s = Inr \<lparr>realm = m0, service = m1\<rparr>"
  by (simp add: parseAuthenticate_def)

lemma parseAuthenticate_fewer_than_two:
  "length (re_match_all s) < 2 \<Longrightarrow> parseAuthenticate s = Inl (InvalidAuthenticate s)"
  by (cases "re_match_all s" rule: remdups_adj.cases) (simp_all add: parseAuthenticate_def)

text \<open>The challenge of the default registry is parsed as the sample in the source says.\<close>

lemma parse_registry_challenge:
  \<open>parseAuthenticate
      ''Bearer realm="https://auth.docker.io/token",service="registry.docker.io"''
    = Inr \<lparr>realm = ''https://auth.docker.io/token'', service = ''registry.docker.io''\<rparr>\<close>
  by (simp add: parser_defs)

text \<open>A challenge with one quoted value, and one with none, are refused.\<close>

lemma parse_one_value:
  \<open>parseAuthenticate ''Bearer realm="https://auth.docker.io/token"''
    = Inl (InvalidAuthenticate ''Bearer realm="https://auth.docker.io/token"'')\<close>
  by (simp add: parser_defs)

lemma parse_no_value:
  "parseAuthenticate ''Basic'' = Inl (InvalidAuthenticate ''Basic'')"
  by (simp add: parser_defs)

subsection \<open>The scan, step by step\<close>

lemma re_body_plain:
  "dquote \<notin> set v \<Longrightarrow> backslash \<notin> set v \<Longrightarrow> re_body (v @ dquote # r) = (v, dquote # r)"
proof (induction v)
  case Nil
  then show ?case by (cases r) (simp_all add: dquote_def backslash_def)
next
  case (Cons a v)
  then show ?case by (cases "v @ dquote # r") auto
qed

lemma re_scan_skip:
  "length xs \<le> skip \<Longrightarrow>
     re_scan skip behind (xs @ s) = re_scan (skip - length xs) (rev xs @ behind) s"
proof (induction xs arbitrary: skip behind)
  case Nil
  then show ?case by simp
next
  case (Cons x xs)
  then show ?case by (cases skip) simp_all
qed

lemma no_match_at_end: "re_match_here behind [] = None"
  by (simp add: re_match_here_def split: list.splits)

lemma no_match_at_start: "re_match_here [] s = None" "re_match_here [b] s = None"
  by (simp_all add: re_match_here_def)

lemma no_match_without_opening:
  "a \<noteq> CHR ''='' \<or> b \<noteq> dquote \<Longrightarrow> re_match_here (b # a # behind) s = None"
  by (auto simp: re_match_here_def)

lemma no_match_after_plain:
  "v \<noteq> [] \<Longrightarrow> last v \<noteq> dquote \<Longrightarrow> re_match_here (rev v @ behind) s = None"
  by (cases v rule: rev_cases) (auto simp: re_match_here_def split: list.splits)

lemma no_match_after_closing:
  "v \<noteq> [] \<Longrightarrow> last v \<noteq> CHR ''='' \<Longrightarrow> re_match_here (dquote # rev v @ behind) s = None"
  by (cases v rule: rev_cases) (auto simp: re_match_here_def split: list.splits)

lemma match_plain_value:
  "dquote \<notin> set v \<Longrightarrow> backslash \<notin> set v \<Longrightarrow>
     re_match_here (dquote # CHR ''='' # behind) (v @ dquote # r) = Some v"
  by (simp add: re_match_here_def re_body_plain)

lemma re_scan_value:
  assumes "re_match_here behind (v @ dquote # r) = Some v"
  shows "re_scan 0 behind (v @ dquote # r) =
           v # (if v = [] then re_scan 0 (dquote # behind) r
                else re_scan 0 (rev v @ behind) (dquote # r))"
proof (cases v)
  case Nil
  with assms show ?thesis by simp
next
  case (Cons a w)
  have "re_scan 0 behind (a # w @ dquote # r) = v # re_scan (length w) (a # behind) (w @ dquote # r)"
    using assms Cons by simp
  also have "re_scan (length w) (a # behind) (w @ dquote # r) =
               re_scan 0 (rev w @ a # behind) (dquote # r)"
    using re_scan_skip [of w "length w" "a # behind" "dquote # r"] by simp
  finally show ?thesis using Cons by simp
qed

lemma re_scan_after_value:
  assumes "dquote \<notin> set v"
  shows "(if v = [] then re_scan 0 (dquote # behind) r
          else re_scan 0 (rev v @ behind) (dquote # r))
         = re_scan 0 (dquote # rev v @ behind) r"
proof (cases "v = []")
  case True
  then show ?thesis by simp
next
  case False
  with assms have "last v \<noteq> dquote" by (metis last_in_set)
  with False show ?thesis by (simp add: no_match_after_plain)
qed

lemma dquote_not_equals: "dquote \<noteq> CHR ''=''"
  by (simp add: dquote_def)

lemma re_scan_plain_value:
  assumes "dquote \<notin> set v" and "backslash \<notin> set v"
  shows "re_scan 0 (dquote # CHR ''='' # behind) (v @ dquote # r) =
           v # re_scan 0 (dquote # rev v @ dquote # CHR ''='' # behind) r"
  using assms by (simp add: re_scan_value match_plain_value re_scan_after_value)

lemma no_match_after_value:
  assumes "v = [] \<or> last v \<noteq> CHR ''=''"
  shows "re_match_here (dquote # rev v @ dquote # behind) s = None"
proof (cases "v = []")
  case True
  then show ?thesis by (simp add: no_match_without_opening dquote_not_equals)
next
  case False
  with assms show ?thesis by (simp add: no_match_after_closing)
qed

text \<open>
  A challenge of the usual shape, with a realm and a service that hold neither a double
  quote nor a backslash, is parsed into the two, unless the realm ends in \<^verbatim>\<open>=\<close>.
\<close>

lemma parse_bearer_challenge:
  assumes "dquote \<notin> set v1" and "backslash \<notin> set v1"
    and "dquote \<notin> set v2" and "backslash \<notin> set v2"
    and "v1 = [] \<or> last v1 \<noteq> CHR ''=''"
  shows "parseAuthenticate
           (''Bearer realm='' @ dquote # v1 @ dquote # '',service='' @ dquote # v2 @ [dquote])
         = Inr \<lparr>realm = v1, service = v2\<rparr>"
proof -
  have "re_match_all
          (''Bearer realm='' @ dquote # v1 @ dquote # '',service='' @ dquote # v2 @ [dquote])
        = [v1, v2]"
    using assms
    by (simp add: re_match_all_def no_match_at_start no_match_without_opening
          dquote_not_equals re_scan_plain_value no_match_after_value no_match_at_end)
  then show ?thesis by (simp add: parseAuthenticate_def)
qed

lemma re_body_dquote: "re_body (dquote # s) = ([], dquote # s)"
  by (cases s) (simp_all add: dquote_def backslash_def)

lemma re_body_plain_char:
  "c \<noteq> dquote \<Longrightarrow> c \<noteq> backslash \<Longrightarrow>
     re_body (c # s) = (case re_body s of (m, r) \<Rightarrow> (c # m, r))"
  by (cases s) simp_all

lemma match_between_values:
  "re_match_here (dquote # CHR ''='' # behind) ('',service='' @ dquote # s) = Some '',service=''"
proof -
  have "re_body ('',service='' @ dquote # s) = ('',service='', dquote # s)"
    by (rule re_body_plain) (simp_all add: dquote_def backslash_def)
  then show ?thesis by (simp add: re_match_here_def)
qed

text \<open>
  With a realm that ends in \<^verbatim>\<open>=\<close> the same shape is parsed into the realm and the text
  between the two values.
\<close>

lemma parse_realm_ending_in_equals:
  assumes "dquote \<notin> set w" and "backslash \<notin> set w"
  shows "parseAuthenticate
           (''Bearer realm='' @ dquote # (w @ ''='') @ dquote # '',service='' @ dquote # v2
              @ [dquote])
         = Inr \<lparr>realm = w @ ''='', service = '',service=''\<rparr>"
proof -
  let ?b = "dquote # CHR ''='' # rev ''Bearer realm''"
  let ?r = "'',service='' @ dquote # v2 @ [dquote]"
  have plain: "dquote \<notin> set (w @ ''='')" "backslash \<notin> set (w @ ''='')"
    using assms by (simp_all add: dquote_def backslash_def)
  have start: "re_match_all (''Bearer realm='' @ dquote # (w @ ''='') @ dquote # ?r)
                 = re_scan 0 ?b ((w @ ''='') @ dquote # ?r)"
    by (simp add: re_match_all_def no_match_at_start no_match_without_opening)
  have first: "re_scan 0 ?b ((w @ ''='') @ dquote # ?r)
                 = (w @ ''='') # re_scan 0 (dquote # rev (w @ ''='') @ ?b) ?r"
    using plain by (rule re_scan_plain_value)
  have "re_match_here (dquote # rev (w @ ''='') @ ?b) ?r = Some '',service=''"
    using match_between_values [of "rev w @ ?b" "v2 @ [dquote]"] by simp
  then have second: "re_scan 0 (dquote # rev (w @ ''='') @ ?b) ?r
                 = '',service='' # re_scan 8 (CHR '','' # dquote # rev (w @ ''='') @ ?b)
                                     (''service='' @ dquote # v2 @ [dquote])"
    by simp
  show ?thesis
    by (simp only: parseAuthenticate_def start first second list.case)
qed

subsection \<open>A value that ends in an equals sign\<close>

text \<open>
  Claim C5. The parser should give the first two quoted values of the header as realm
  and service. In the challenge below the realm ends in \<^verbatim>\<open>=\<close>, so the quote that closes
  it comes right after an \<^verbatim>\<open>=\<close> and the look-behind of the regular expression takes it
  for the opening of a value; the text up to the next quote, \<^verbatim>\<open>,service=\<close>, becomes the
  service in place of the second quoted value.
\<close>

theorem parseAuthenticate_value_ending_in_equals:
  \<open>re_match_all
      ''Bearer realm="https://auth.example.com/token?account=",service="registry.example.com"''
     = [''https://auth.example.com/token?account='', '',service='', ''registry.example.com'']
   \<and> parseAuthenticate
      ''Bearer realm="https://auth.example.com/token?account=",service="registry.example.com"''
     = Inr \<lparr>realm = ''https://auth.example.com/token?account='', service = '',service=''\<rparr>\<close>
  by (simp add: parser_defs)

section \<open>The replies of the middleware\<close>

lemma do_fetch_calls: "snd (do_fetch e rq) = [rq]"
  by (simp add: do_fetch_def split: option.splits)

lemma probe_reply:
  "probe e cfg upstream u a = (Inr r, calls) \<Longrightarrow>
     r = responseUnauthorized cfg u \<or> (\<exists>resp. r = Relay resp)"
  by (auto simp: probe_def do_fetch_def split: option.splits if_splits)

lemma auth_reply:
  "auth e upstream d u a = (Inr r, calls) \<Longrightarrow> \<exists>resp. r = Relay resp"
  by (auto simp: auth_def do_fetch_def fetchToken_def
        split: option.splits if_splits sum.splits prod.splits)

lemma forward_reply:
  "forward e cfg upstream u req = (Inr r, calls) \<Longrightarrow>
     r = responseUnauthorized cfg u \<or> (\<exists>resp. r = Relay resp)"
  by (auto simp: forward_def do_fetch_def split: option.splits if_splits)

lemma handle_reply:
  "handle e cfg req = (Inr r, calls) \<Longrightarrow>
     r = Json 404 Map.empty (Routes (routes cfg))
     \<or> (\<exists>u. req_url req = Some u \<and> r = responseUnauthorized cfg u)
     \<or> (\<exists>resp. r = Relay resp)
     \<or> (\<exists>loc. r = Redirect 301 loc)"
  by (auto simp: handle_def Let_def split: option.splits if_splits
        dest: probe_reply auth_reply forward_reply)

lemma fst_app:
  "fst (app e cfg req) =
     (case fst (handle e cfg req) of Inl err \<Rightarrow> Send 500 ''Internal Server Error'' | Inr r \<Rightarrow> r)"
  by (simp add: app_def split: prod.splits sum.splits)

lemma snd_app: "snd (app e cfg req) = snd (handle e cfg req)"
  by (simp add: app_def split: prod.splits sum.splits)

text \<open>The five replies the server can give.\<close>

lemma app_reply:
  "fst (app e cfg req) = Send 500 ''Internal Server Error''
     \<or> fst (app e cfg req) = Json 404 Map.empty (Routes (routes cfg))
     \<or> (\<exists>u. req_url req = Some u \<and> fst (app e cfg req) = responseUnauthorized cfg u)
     \<or> (\<exists>resp. fst (app e cfg req) = Relay resp)
     \<or> (\<exists>loc. fst (app e cfg req) = Redirect 301 loc)"
proof (cases "handle e cfg req")
  case (Pair x calls)
  show ?thesis
  proof (cases x)
    case (Inl err)
    with Pair show ?thesis by (simp add: app_def)
  next
    case (Inr r)
    with Pair handle_reply [of e cfg req r calls] show ?thesis by (auto simp: app_def)
  qed
qed

subsection \<open>The upstream calls of each branch\<close>

lemma probe_calls:
  "snd (probe e cfg upstream u a) =
     (case URL e (to_str upstream @ ''/v2/'') of
        None \<Rightarrow> []
      | Some newUrl \<Rightarrow>
          [\<lparr>fr_url = newUrl, fr_params = [], fr_method = ''GET'',
            fr_headers = (if present a then [''Authorization'' \<mapsto> the a] else Map.empty),
            fr_body = None\<rparr>])"
  by (simp add: probe_def do_fetch_def split: option.splits)

lemma forward_calls:
  "snd (forward e cfg upstream u req) =
     (case URL e (to_str upstream @ pathname u @ search u) of
        None \<Rightarrow> []
      | Some newUrl \<Rightarrow>
          (case URL e (to_str upstream) of
             None \<Rightarrow> []
           | Some up \<Rightarrow>
               [\<lparr>fr_url = newUrl, fr_params = [], fr_method = req_method req,
                 fr_headers = ((req_headers req)(''host'' \<mapsto> host up))(''accept-encoding'' := None),
                 fr_body =
                   (if req_method req \<noteq> ''GET'' \<and> req_method req \<noteq> ''HEAD''
                    then Some (req_body req) else None)\<rparr>]))"
  by (simp add: forward_def do_fetch_def split: option.splits)

lemma fetchToken_calls:
  "snd (fetchToken e ch scope a) =
     (case URL e (realm ch) of
        None \<Rightarrow> []
      | Some t \<Rightarrow>
          [\<lparr>fr_url = t,
            fr_params =
              (if service ch \<noteq> [] then [(''service'', service ch)] else [])
              @ (if present scope then [(''scope'', the scope)] else []),
            fr_method = ''GET'',
            fr_headers = (if present a then [''Authorization'' \<mapsto> the a] else Map.empty),
            fr_body = None\<rparr>])"
  by (simp add: fetchToken_def do_fetch_def split: option.splits)

text \<open>
  The token exchange makes no call, or the discovery call alone, or the discovery call
  and the call to the token realm.
\<close>

lemma auth_calls:
  "snd (auth e upstream d u a) =
     (case URL e (to_str upstream @ ''/v2/'') of
        None \<Rightarrow> []
      | Some newUrl \<Rightarrow>
          \<lparr>fr_url = newUrl, fr_params = [], fr_method = ''GET'', fr_headers = Map.empty,
            fr_body = None\<rparr>
          # (case fetch e \<lparr>fr_url = newUrl, fr_params = [], fr_method = ''GET'',
                            fr_headers = Map.empty, fr_body = None\<rparr> of
               None \<Rightarrow> []
             | Some resp \<Rightarrow>
                 if status resp = 401 \<and> present (headers resp ''www-authenticate'') then
                   (case parseAuthenticate (the (headers resp ''www-authenticate'')) of
                      Inl err \<Rightarrow> []
                    | Inr ch \<Rightarrow>
                        snd (fetchToken e ch (rewrite_scope d (searchParams_get u ''scope'')) a))
                 else []))"
  by (simp add: auth_def do_fetch_def split: option.splits sum.splits prod.splits)

lemma auth_relays:
  "auth e upstream d u a = (Inr r, calls) \<Longrightarrow>
     calls \<noteq> [] \<and> (\<exists>resp. fetch e (last calls) = Some resp \<and> r = Relay resp)"
  by (auto simp: auth_def do_fetch_def fetchToken_def
        split: option.splits if_splits sum.splits prod.splits)

lemma auth_table:
  "auth e upstream d u a =
     (case URL e (to_str upstream @ ''/v2/'') of
        None \<Rightarrow> (Inl (InvalidURL (to_str upstream @ ''/v2/'')), [])
      | Some newUrl \<Rightarrow>
          (case fetch e \<lparr>fr_url = newUrl, fr_params = [], fr_method = ''GET'',
                            fr_headers = Map.empty, fr_body = None\<rparr> of
             None \<Rightarrow>
               (Inl FetchFailed,
                [\<lparr>fr_url = newUrl, fr_params = [], fr_method = ''GET'',
                   fr_headers = Map.empty, fr_body = None\<rparr>])
           | Some resp \<Rightarrow>
               if status resp \<noteq> 401 \<or> \<not> present (headers resp ''www-authenticate'') then
                 (Inr (Relay resp),
                  [\<lparr>fr_url = newUrl, fr_params = [], fr_method = ''GET'',
                     fr_headers = Map.empty, fr_body = None\<rparr>])
               else
                 (case parseAuthenticate (the (headers resp ''www-authenticate'')) of
                    Inl err \<Rightarrow>
                      (Inl err,
                       [\<lparr>fr_url = newUrl, fr_params = [], fr_method = ''GET'',
                          fr_headers = Map.empty, fr_body = None\<rparr>])
                  | Inr ch \<Rightarrow>
                      (case URL e (realm ch) of
                         None \<Rightarrow>
                           (Inl (InvalidURL (realm ch)),
                            [\<lparr>fr_url = newUrl, fr_params = [], fr_method = ''GET'',
                               fr_headers = Map.empty, fr_body = None\<rparr>])
                       | Some t \<Rightarrow>
                           (case fetch e
                                   \<lparr>fr_url = t,
                                    fr_params =
                                      (if service ch \<noteq> [] then [(''service'', service ch)] else [])
                                      @ (if present (rewrite_scope d (searchParams_get u ''scope''))
                                         then [(''scope'',
                                                the (rewrite_scope d (searchParams_get u ''scope'')))]
                                         else []),
                                    fr_method = ''GET'',
                                    fr_headers =
                                      (if present a then [''Authorization'' \<mapsto> the a]
                                       else Map.empty),
                                    fr_body = None\<rparr> of
                              None \<Rightarrow> Inl FetchFailed
                            | Some tokenResp \<Rightarrow> Inr (Relay tokenResp),
                            [\<lparr>fr_url = newUrl, fr_params = [], fr_method = ''GET'',
                               fr_headers = Map.empty, fr_body = None\<rparr>,
                             \<lparr>fr_url = t,
                              fr_params =
                                (if service ch \<noteq> [] then [(''service'', service ch)] else [])
                                @ (if present (rewrite_scope d (searchParams_get u ''scope''))
                                   then [(''scope'',
                                          the (rewrite_scope d (searchParams_get u ''scope'')))]
                                   else []),
                              fr_method = ''GET'',
                              fr_headers =
                                (if present a then [''Authorization'' \<mapsto> the a]
                                 else Map.empty),
                              fr_body = None\<rparr>])))))"
  by (simp add: auth_def do_fetch_def fetchToken_def
        split: option.splits sum.splits prod.splits)

lemma handle_probe:
  assumes "truthy (routeByHosts cfg (req_hostname req))" and "req_url req = Some u"
    and "pathname u = ''/v2/''"
  shows "handle e cfg req =
           probe e cfg (routeByHosts cfg (req_hostname req)) u (req_headers req ''authorization'')"
  using assms by (simp add: handle_def Let_def)

lemma handle_auth:
  assumes "truthy (routeByHosts cfg (req_hostname req))" and "req_url req = Some u"
    and "pathname u = ''/v2/auth''"
  shows "handle e cfg req =
           auth e (routeByHosts cfg (req_hostname req))
             (routeByHosts cfg (req_hostname req) = Str dockerHub) u
             (req_headers req ''authorization'')"
  using assms by (simp add: handle_def Let_def)

lemma handle_no_upstream:
  assumes "\<not> truthy (routeByHosts cfg (req_hostname req))"
  shows "handle e cfg req = (Inr (Json 404 Map.empty (Routes (routes cfg))), [])"
  using assms by (simp add: handle_def Let_def)

lemma handle_no_url:
  assumes "truthy (routeByHosts cfg (req_hostname req))" and "req_url req = None"
  shows "handle e cfg req = (Inl (InvalidURL []), [])"
  using assms by (simp add: handle_def Let_def)

text \<open>
  The branch that handles a request: none without an upstream or a URL, otherwise the
  probe, the token exchange, the redirect or the forwarder.
\<close>

lemma handle_branch:
  assumes "truthy (routeByHosts cfg (req_hostname req))" and "req_url req = Some u"
  shows "(pathname u = ''/v2/'' \<and>
            handle e cfg req =
              probe e cfg (routeByHosts cfg (req_hostname req)) u
                (req_headers req ''authorization''))
         \<or> (pathname u = ''/v2/auth'' \<and>
            handle e cfg req =
              auth e (routeByHosts cfg (req_hostname req))
                (routeByHosts cfg (req_hostname req) = Str dockerHub) u
                (req_headers req ''authorization''))
         \<or> (pathname u \<noteq> ''/v2/'' \<and> pathname u \<noteq> ''/v2/auth'' \<and> snd (handle e cfg req) = [])
         \<or> (pathname u \<noteq> ''/v2/'' \<and> pathname u \<noteq> ''/v2/auth'' \<and>
            handle e cfg req = forward e cfg (routeByHosts cfg (req_hostname req)) u req)"
  using assms by (simp add: handle_def Let_def)

section \<open>Worked examples\<close>

lemmas handler_defs = app_def handle_def probe_def auth_def forward_def fetchToken_def
  do_fetch_def dockerHub_def present_def responseUnauthorized_def rewrite_scope_def
  searchParams_get_def host_def search_def userinfo_def href_def splice_insert_def

lemmas request_defs = client_url_def get_request_def registry_url_def example_URL_def
  registry_challenge_def token_refusal_def token_granted_def manifest_served_def
  registry_open_def example_fetch_def example_env_def

lemma client_url_sel:
  "protocol (client_url name p path q pairs) = ''http:''"
  "username (client_url name p path q pairs) = []"
  "password (client_url name p path q pairs) = []"
  "hostname (client_url name p path q pairs) = name"
  "port (client_url name p path q pairs) = p"
  "pathname (client_url name p path q pairs) = path"
  "query (client_url name p path q pairs) = q"
  "fragment (client_url name p path q pairs) = None"
  "searchParams (client_url name p path q pairs) = pairs"
  by (simp_all add: client_url_def)

lemma get_request_sel:
  "req_method (get_request name p hdrs path q pairs) = ''GET''"
  "req_hostname (get_request name p hdrs path q pairs) = name"
  "req_headers (get_request name p hdrs path q pairs) =
     hdrs(''host'' \<mapsto> (if p = [] then name else name @ '':'' @ p))"
  "req_url (get_request name p hdrs path q pairs) = Some (client_url name p path q pairs)"
  "req_body (get_request name p hdrs path q pairs) = []"
  by (simp_all add: get_request_def)

lemma mode_debugging: "MODE debugging = ''debug''"
  by (simp add: debugging_def)

lemma route_constructor: "routeByHosts production ''constructor'' = Inherited ''constructor''"
  by (simp add: routeByHosts_def get_prop_def routes_def object_prototype_names_def
        production_def)

lemma route_docker: "routeByHosts production ''docker.example.com'' = Str dockerHub"
  by (simp add: routeByHosts_def get_prop_def routes_def production_def dockerHub_def)

lemma route_k8s: "routeByHosts production ''k8s.example.com'' = Str ''https://registry.k8s.io''"
  by (simp add: routeByHosts_def get_prop_def routes_def production_def)

lemma route_quay: "routeByHosts production ''quay.example.com'' = Str ''https://quay.io''"
  by (simp add: routeByHosts_def get_prop_def routes_def production_def)

lemma route_ghcr: "routeByHosts production ''ghcr.example.com'' = Str ''https://ghcr.io''"
  by (simp add: routeByHosts_def get_prop_def routes_def production_def)

lemma mode_production: "MODE production = ''production''"
  by (simp add: production_def)

lemma dockerHub_nonempty: "dockerHub \<noteq> []"
  by (simp add: dockerHub_def)

text \<open>The probe, from an anonymous client and from one with credentials.\<close>

lemma probe_anonymous:
  \<open>app example_env production (get_request ''docker.example.com'' [] Map.empty ''/v2/'' None [])
     = (Json 401
          [''WWW-Authenticate'' \<mapsto>
             ''Bearer realm="https://docker.example.com/v2/auth",service="docker-repository-proxy"'']
          (Message ''UNAUTHORIZED''),
        [\<lparr>fr_url = registry_url ''registry-1.docker.io'' ''/v2/'', fr_params = [],
          fr_method = ''GET'', fr_headers = Map.empty, fr_body = None\<rparr>])\<close>
  by (simp add: handler_defs request_defs route_docker mode_production Let_def)

lemma probe_with_credentials:
  "app example_env production
     (get_request ''docker.example.com'' [] [''authorization'' \<mapsto> ''Basic Zm9vOmJhcg=='']
        ''/v2/'' None [])
     = (Relay manifest_served,
        [\<lparr>fr_url = registry_url ''registry-1.docker.io'' ''/v2/'', fr_params = [],
          fr_method = ''GET'',
          fr_headers = [''Authorization'' \<mapsto> ''Basic Zm9vOmJhcg==''], fr_body = None\<rparr>])"
  by (simp add: handler_defs request_defs route_docker mode_production Let_def)

text \<open>The token exchange, from the same two clients and from one that sends no header.\<close>

lemma token_anonymous:
  "app example_env production
     (get_request ''docker.example.com'' [] Map.empty ''/v2/auth''
        (Some ''scope=repository:busybox:pull'') [(''scope'', ''repository:busybox:pull'')])
     = (Relay token_granted,
        [\<lparr>fr_url = registry_url ''registry-1.docker.io'' ''/v2/'', fr_params = [],
          fr_method = ''GET'', fr_headers = Map.empty, fr_body = None\<rparr>,
         \<lparr>fr_url = registry_url ''auth.docker.io'' ''/token'',
          fr_params =
            [(''service'', ''registry.docker.io''),
             (''scope'', ''repository:library/busybox:pull'')],
          fr_method = ''GET'', fr_headers = Map.empty, fr_body = None\<rparr>])"
  by (simp add: handler_defs request_defs route_docker mode_production Let_def
        parse_registry_challenge)

lemma token_with_credentials:
  "app example_env production
     (get_request ''docker.example.com'' [] [''authorization'' \<mapsto> ''Basic Zm9vOmJhcg=='']
        ''/v2/auth'' (Some ''scope=repository:busybox:pull'')
        [(''scope'', ''repository:busybox:pull'')])
     = (Relay token_refusal,
        [\<lparr>fr_url = registry_url ''registry-1.docker.io'' ''/v2/'', fr_params = [],
          fr_method = ''GET'', fr_headers = Map.empty, fr_body = None\<rparr>,
         \<lparr>fr_url = registry_url ''auth.docker.io'' ''/token'',
          fr_params =
            [(''service'', ''registry.docker.io''),
             (''scope'', ''repository:library/busybox:pull'')],
          fr_method = ''GET'',
          fr_headers = [''Authorization'' \<mapsto> ''Basic Zm9vOmJhcg==''], fr_body = None\<rparr>])"
  by (simp add: handler_defs request_defs route_docker mode_production Let_def
        parse_registry_challenge)

lemma token_with_other_credentials:
  "app example_env production
     ((get_request ''docker.example.com'' [] [''authorization'' \<mapsto> ''Basic Zm9vOmJhcg=='']
         ''/v2/auth'' (Some ''scope=repository:busybox:pull'')
         [(''scope'', ''repository:busybox:pull'')])
      \<lparr>req_headers :=
         (req_headers
            (get_request ''docker.example.com'' []
               [''authorization'' \<mapsto> ''Basic Zm9vOmJhcg=='']
               ''/v2/auth'' (Some ''scope=repository:busybox:pull'')
               [(''scope'', ''repository:busybox:pull'')]))
         (''authorization'' \<mapsto> ''Bearer t'')\<rparr>)
     = (Relay token_refusal,
        [\<lparr>fr_url = registry_url ''registry-1.docker.io'' ''/v2/'', fr_params = [],
          fr_method = ''GET'', fr_headers = Map.empty, fr_body = None\<rparr>,
         \<lparr>fr_url = registry_url ''auth.docker.io'' ''/token'',
          fr_params =
            [(''service'', ''registry.docker.io''),
             (''scope'', ''repository:library/busybox:pull'')],
          fr_method = ''GET'',
          fr_headers = [''Authorization'' \<mapsto> ''Bearer t''], fr_body = None\<rparr>])"
  by (simp add: handler_defs request_defs route_docker mode_production Let_def
        parse_registry_challenge)

text \<open>The token exchange with a registry other than the default one.\<close>

lemma token_other_registry:
  "app example_env production
     (get_request ''k8s.example.com'' [] Map.empty ''/v2/auth''
        (Some ''scope=repository:pause:pull'') [(''scope'', ''repository:pause:pull'')])
     = (Relay token_granted,
        [\<lparr>fr_url = registry_url ''registry.k8s.io'' ''/v2/'', fr_params = [],
          fr_method = ''GET'', fr_headers = Map.empty, fr_body = None\<rparr>,
         \<lparr>fr_url = registry_url ''auth.docker.io'' ''/token'',
          fr_params =
            [(''service'', ''registry.docker.io''), (''scope'', ''repository:pause:pull'')],
          fr_method = ''GET'', fr_headers = Map.empty, fr_body = None\<rparr>])"
  by (simp add: handler_defs request_defs route_k8s mode_production Let_def
        parse_registry_challenge)

text \<open>The token exchange with a registry that asks for nothing, and with one out of reach.\<close>

lemma token_open_registry:
  "app example_env production
     (get_request ''quay.example.com'' [] Map.empty ''/v2/auth''
        (Some ''scope=repository:pause:pull'') [(''scope'', ''repository:pause:pull'')])
     = (Relay registry_open,
        [\<lparr>fr_url = registry_url ''quay.io'' ''/v2/'', fr_params = [],
          fr_method = ''GET'', fr_headers = Map.empty, fr_body = None\<rparr>])"
  by (simp add: handler_defs request_defs route_quay mode_production Let_def)

lemma token_unreachable_registry:
  "app example_env production
     (get_request ''ghcr.example.com'' [] Map.empty ''/v2/auth''
        (Some ''scope=repository:pause:pull'') [(''scope'', ''repository:pause:pull'')])
     = (Send 500 ''Internal Server Error'',
        [\<lparr>fr_url = registry_url ''ghcr.io'' ''/v2/'', fr_params = [],
          fr_method = ''GET'', fr_headers = Map.empty, fr_body = None\<rparr>])"
  by (simp add: handler_defs request_defs route_ghcr mode_production Let_def)

text \<open>The redirect, and requests that reach the forwarder.\<close>

lemma redirect_busybox:
  "app example_env production
     (get_request ''docker.example.com'' [] Map.empty ''/v2/busybox/manifests/latest''
        (Some ''x=1'') [(''x'', ''1'')])
     = (Redirect 301 ''http://docker.example.com/v2/library/busybox/manifests/latest?x=1'', [])"
  by (simp add: handler_defs request_defs route_docker mode_production Let_def)

lemma redirect_busybox_bare_query:
  "app example_env production
     (get_request ''docker.example.com'' [] Map.empty ''/v2/busybox/manifests/latest''
        (Some []) [])
     = (Redirect 301 ''http://docker.example.com/v2/library/busybox/manifests/latest?'', [])"
  by (simp add: handler_defs request_defs route_docker mode_production Let_def)

lemma redirect_any_five_bare_query:
  "app example_env production
     (get_request ''docker.example.com'' [] Map.empty ''/a/b/c/d'' (Some []) [])
     = (Redirect 301 ''http://docker.example.com/a/library/b/c/d?'', [])"
  by (simp add: handler_defs request_defs route_docker mode_production Let_def)

lemma redirect_any_five:
  "app example_env production
     (get_request ''docker.example.com'' [] Map.empty ''/a/b/c/d'' None [])
     = (Redirect 301 ''http://docker.example.com/a/library/b/c/d'', [])"
  by (simp add: handler_defs request_defs route_docker mode_production Let_def)

lemma manifest_anonymous:
  \<open>app example_env production
     (get_request ''docker.example.com'' [] Map.empty ''/v2/library/busybox/manifests/latest''
        None [])
     = (Json 401
          [''WWW-Authenticate'' \<mapsto>
             ''Bearer realm="https://docker.example.com/v2/auth",service="docker-repository-proxy"'']
          (Message ''UNAUTHORIZED''),
        [\<lparr>fr_url =
            registry_url ''registry-1.docker.io'' ''/v2/library/busybox/manifests/latest'',
          fr_params = [], fr_method = ''GET'',
          fr_headers = [''host'' \<mapsto> ''registry-1.docker.io''], fr_body = None\<rparr>])\<close>
  by (simp add: handler_defs request_defs route_docker mode_production Let_def)

lemma manifest_with_token:
  "app example_env production
     (get_request ''docker.example.com'' [] [''authorization'' \<mapsto> ''Bearer t'']
        ''/v2/library/busybox/manifests/latest'' None [])
     = (Relay manifest_served,
        [\<lparr>fr_url =
            registry_url ''registry-1.docker.io'' ''/v2/library/busybox/manifests/latest'',
          fr_params = [], fr_method = ''GET'',
          fr_headers =
            [''authorization'' \<mapsto> ''Bearer t'', ''host'' \<mapsto> ''registry-1.docker.io''],
          fr_body = None\<rparr>])"
  by (simp add: handler_defs request_defs route_docker mode_production Let_def)

lemma manifest_with_headers:
  "app example_env production
     (get_request ''docker.example.com'' []
        [''authorization'' \<mapsto> ''Bearer t'', ''accept-encoding'' \<mapsto> ''gzip'',
         ''user-agent'' \<mapsto> ''docker/24.0'']
        ''/v2/library/busybox/manifests/latest'' None [])
     = (Relay manifest_served,
        [\<lparr>fr_url =
            registry_url ''registry-1.docker.io'' ''/v2/library/busybox/manifests/latest'',
          fr_params = [], fr_method = ''GET'',
          fr_headers =
            [''authorization'' \<mapsto> ''Bearer t'', ''user-agent'' \<mapsto> ''docker/24.0'',
             ''host'' \<mapsto> ''registry-1.docker.io''],
          fr_body = None\<rparr>])"
  by (simp add: handler_defs request_defs route_docker mode_production Let_def fun_upd_twist)

lemma other_registry_forwarded:
  \<open>app example_env production
     (get_request ''k8s.example.com'' [] Map.empty ''/v2/pause/manifests/3.9'' None [])
     = (Json 401
          [''WWW-Authenticate'' \<mapsto>
             ''Bearer realm="https://k8s.example.com/v2/auth",service="docker-repository-proxy"'']
          (Message ''UNAUTHORIZED''),
        [\<lparr>fr_url = registry_url ''registry.k8s.io'' ''/v2/pause/manifests/3.9'',
          fr_params = [], fr_method = ''GET'',
          fr_headers = [''host'' \<mapsto> ''registry.k8s.io''], fr_body = None\<rparr>])\<close>
  by (simp add: handler_defs request_defs route_k8s mode_production Let_def)

text \<open>A host name that the route table inherits.\<close>

lemma inherited_host:
  "app example_env production (get_request ''constructor'' [] Map.empty ''/v2/'' None [])
     = (Send 500 ''Internal Server Error'', [])"
  by (simp add: handler_defs request_defs route_constructor Let_def)

text \<open>What the example upstreams answer.\<close>

lemma fetch_discovery:
  "fetch example_env
     \<lparr>fr_url = registry_url ''registry-1.docker.io'' ''/v2/'', fr_params = [],
      fr_method = ''GET'', fr_headers = Map.empty, fr_body = None\<rparr>
   = Some registry_challenge"
  by (simp add: example_env_def example_fetch_def registry_url_def)

lemma fetch_token_with_credentials:
  "fetch example_env
     \<lparr>fr_url = registry_url ''auth.docker.io'' ''/token'',
      fr_params =
        [(''service'', ''registry.docker.io''), (''scope'', ''repository:library/busybox:pull'')],
      fr_method = ''GET'',
      fr_headers = [''Authorization'' \<mapsto> ''Basic Zm9vOmJhcg==''], fr_body = None\<rparr>
   = Some token_refusal"
  by (simp add: example_env_def example_fetch_def registry_url_def)

lemma fetch_examples:
  "fetch example_env
     \<lparr>fr_url = registry_url ''auth.docker.io'' ''/token'',
      fr_params =
        [(''service'', ''registry.docker.io''), (''scope'', ''repository:library/busybox:pull'')],
      fr_method = ''GET'', fr_headers = Map.empty, fr_body = None\<rparr>
   = Some token_granted"
  "fetch example_env
     \<lparr>fr_url = registry_url ''quay.io'' ''/v2/'', fr_params = [],
      fr_method = ''GET'', fr_headers = Map.empty, fr_body = None\<rparr>
   = Some registry_open"
  "fetch example_env
     \<lparr>fr_url = registry_url ''ghcr.io'' ''/v2/'', fr_params = [],
      fr_method = ''GET'', fr_headers = Map.empty, fr_body = None\<rparr>
   = None"
  by (simp_all add: example_env_def example_fetch_def registry_url_def)

lemma example_statuses:
  "status registry_challenge = 401" "status token_refusal = 401" "status token_granted = 200"
  "status registry_open = 200"
  by (simp_all add: registry_challenge_def token_refusal_def token_granted_def
        registry_open_def)

subsection \<open>Hosts without an upstream\<close>

text \<open>
  A host name that is neither in the table nor inherited gets, in production mode, the
  404 reply that lists the table, and no upstream is called.
\<close>

lemma unknown_host_not_found:
  assumes "routes cfg (req_hostname req) = None"
    and "req_hostname req \<notin> set object_prototype_names"
    and "MODE cfg \<noteq> ''debug''"
  shows "app e cfg req = (Json 404 Map.empty (Routes (routes cfg)), [])"
  using assms by (simp add: app_def handle_def routeByHosts_unknown)

text \<open>A host name that the table object inherits never gets that reply.\<close>

lemma inherited_host_no_listing:
  assumes "req_hostname req \<in> set object_prototype_names"
  shows "fst (app e cfg req) \<noteq> Json 404 Map.empty (Routes (routes cfg))"
proof -
  have up: "routeByHosts cfg (req_hostname req) = Inherited (req_hostname req)"
    using assms by (rule routeByHosts_inherited)
  show ?thesis
  proof (cases "handle e cfg req")
    case (Pair x calls)
    show ?thesis
    proof (cases x)
      case (Inl err)
      with Pair show ?thesis by (simp add: app_def)
    next
      case (Inr r)
      have "r \<noteq> Json 404 Map.empty (Routes (routes cfg))"
        using Pair Inr up
        by (auto simp: handle_def Let_def responseUnauthorized_def
              split: option.splits if_splits dest: probe_reply auth_reply forward_reply)
      with Pair Inr show ?thesis by (simp add: app_def)
    qed
  qed
qed

text \<open>
  Claim C7. A request whose host name is absent from the route table should get, in
  production mode, the 404 reply that lists the table. A request for \<^verbatim>\<open>/v2/\<close> with
  \<^verbatim>\<open>Host: constructor\<close> gets the 500 reply of the error handler: the router returns the
  inherited function, the middleware takes it for an upstream, and the \<^verbatim>\<open>URL\<close>
  constructor throws on the text it is given.
\<close>

theorem inherited_host_internal_error:
  "routes production ''constructor'' = None
   \<and> MODE production \<noteq> ''debug''
   \<and> app example_env production (get_request ''constructor'' [] Map.empty ''/v2/'' None [])
       = (Send 500 ''Internal Server Error'', [])"
proof -
  have "routes production ''constructor'' = None"
    by (simp add: routes_def production_def)
  moreover have "MODE production \<noteq> ''debug''"
    by (simp add: production_def)
  ultimately show ?thesis
    by (simp add: inherited_host)
qed

subsection \<open>The Unauthorized Response\<close>

lemma map_single_eq: "(Map.empty(k \<mapsto> a) = Map.empty(k \<mapsto> b)) = (a = b)"
  by (metis map_upd_eqD1)

text \<open>
  Claim C2, as amended. The Unauthorized Response is the 401 reply of the specification,
  with \<^verbatim>\<open>http\<close> and the host of the client-facing URL, its port included, in debug mode,
  and with \<^verbatim>\<open>https\<close> and the host name of that URL, without its port, otherwise. Where
  the URL names no port the two agree. Every 401 reply that the server writes itself is
  this reply for the URL of the request, whichever branch wrote it.
\<close>

theorem responseUnauthorized_header:
  "(MODE cfg = ''debug'' \<longrightarrow> responseUnauthorized cfg u = unauthorized_spec cfg (host u))
   \<and> (MODE cfg \<noteq> ''debug'' \<longrightarrow> responseUnauthorized cfg u = unauthorized_spec cfg (hostname u))
   \<and> (port u = [] \<longrightarrow> responseUnauthorized cfg u = unauthorized_spec cfg (host u))
   \<and> (fst (app e cfg req) = Json 401 h p \<longrightarrow>
        (\<exists>u'. req_url req = Some u' \<and> Json 401 h p = responseUnauthorized cfg u'))"
proof (intro conjI impI)
  assume "fst (app e cfg req) = Json 401 h p"
  with app_reply [of e cfg req]
  show "\<exists>u'. req_url req = Some u' \<and> Json 401 h p = responseUnauthorized cfg u'"
    by auto
qed (simp_all add: responseUnauthorized_def unauthorized_spec_def host_def)

theorem responseUnauthorized_header_witness:
  \<open>MODE debugging = ''debug''
   \<and> responseUnauthorized debugging (client_url ''localhost'' ''3000'' ''/v2/'' None [])
       = unauthorized_spec debugging ''localhost:3000''
   \<and> MODE production \<noteq> ''debug''
   \<and> responseUnauthorized production (client_url ''docker.example.com'' ''8443'' ''/v2/'' None [])
       = unauthorized_spec production ''docker.example.com''
   \<and> port (client_url ''docker.example.com'' [] ''/v2/'' None []) = []
   \<and> responseUnauthorized production (client_url ''docker.example.com'' [] ''/v2/'' None [])
       = unauthorized_spec production ''docker.example.com''
   \<and> fst (app example_env production
             (get_request ''docker.example.com'' [] Map.empty ''/v2/'' None []))
       = Json 401
           [''WWW-Authenticate'' \<mapsto>
              ''Bearer realm="https://docker.example.com/v2/auth",service="docker-repository-proxy"'']
           (Message ''UNAUTHORIZED'')
   \<and> (\<exists>u'. req_url (get_request ''docker.example.com'' [] Map.empty ''/v2/'' None []) = Some u'
          \<and> Json 401
               [''WWW-Authenticate'' \<mapsto>
                  ''Bearer realm="https://docker.example.com/v2/auth",service="docker-repository-proxy"'']
               (Message ''UNAUTHORIZED'')
             = responseUnauthorized production u')\<close>
  using
    responseUnauthorized_header
      [where cfg = debugging and u = "client_url ''localhost'' ''3000'' ''/v2/'' None []"]
    responseUnauthorized_header
      [where cfg = production and u = "client_url ''docker.example.com'' ''8443'' ''/v2/'' None []"]
    responseUnauthorized_header
      [where cfg = production and u = "client_url ''docker.example.com'' [] ''/v2/'' None []"
         and e = example_env
         and req = "get_request ''docker.example.com'' [] Map.empty ''/v2/'' None []"
         and h = "[''WWW-Authenticate'' \<mapsto>
                    ''Bearer realm=\"https://docker.example.com/v2/auth\",service=\"docker-repository-proxy\"'']"
         and p = "Message ''UNAUTHORIZED''"]
  by (simp add: client_url_sel get_request_sel mode_production mode_debugging probe_anonymous
        responseUnauthorized_def unauthorized_spec_def host_def)

text \<open>
  Claim C2 as it is stated fails for a URL with a port, whichever of the two is taken for
  the host of the proxy: in production mode the reply leaves the port out, in debug mode
  it keeps it.
\<close>

theorem responseUnauthorized_port_counterexample:
  \<open>host (client_url ''docker.example.com'' ''8443'' ''/v2/'' None []) = ''docker.example.com:8443''
   \<and> responseUnauthorized production (client_url ''docker.example.com'' ''8443'' ''/v2/'' None [])
       = Json 401
           [''WWW-Authenticate'' \<mapsto>
              ''Bearer realm="https://docker.example.com/v2/auth",service="docker-repository-proxy"'']
           (Message ''UNAUTHORIZED'')
   \<and> responseUnauthorized production (client_url ''docker.example.com'' ''8443'' ''/v2/'' None [])
       \<noteq> unauthorized_spec production ''docker.example.com:8443''
   \<and> hostname (client_url ''localhost'' ''3000'' ''/v2/'' None []) = ''localhost''
   \<and> responseUnauthorized debugging (client_url ''localhost'' ''3000'' ''/v2/'' None [])
       = Json 401
           [''WWW-Authenticate'' \<mapsto>
              ''Bearer realm="http://localhost:3000/v2/auth",service="docker-repository-proxy"'']
           (Message ''UNAUTHORIZED'')
   \<and> responseUnauthorized debugging (client_url ''localhost'' ''3000'' ''/v2/'' None [])
       \<noteq> unauthorized_spec debugging ''localhost''\<close>
  by (simp add: responseUnauthorized_def unauthorized_spec_def host_def client_url_sel
        mode_production mode_debugging map_single_eq)

text \<open>The helper of the earlier variant never gives the reply of the specification.\<close>

lemma service_suffix:
  \<open>p1 @ ''/v2/auth",service="cloudflare-docker-proxy"''
     \<noteq> p2 @ ''/v2/auth",service="docker-repository-proxy"''\<close>
  by (simp add: append_eq_append_conv)

lemma responseUnauthorized_earlier_service:
  "responseUnauthorized_earlier cfg u \<noteq> unauthorized_spec cfg proxy_host"
  by (simp add: responseUnauthorized_earlier_def unauthorized_spec_def map_single_eq
        service_suffix)

subsection \<open>The redirect to the library namespace\<close>

lemma handle_redirect:
  assumes up: "routeByHosts cfg (req_hostname req) = Str dockerHub"
    and u: "req_url req = Some u"
    and n: "length (str_split CHR ''/'' (pathname u)) = 5"
  shows "handle e cfg req =
     (Inr (Redirect 301
        (href (u\<lparr>pathname :=
           str_join ''/'' (splice_insert 2 ''library'' (str_split CHR ''/'' (pathname u)))\<rparr>))), [])"
proof -
  have "pathname u \<noteq> ''/v2/'' \<and> pathname u \<noteq> ''/v2/auth''"
    using n five_segments_not_v2 [of "pathname u"] by simp
  moreover have "truthy (Str dockerHub)" by (simp add: dockerHub_def)
  ultimately show ?thesis using up u n by (simp add: handle_def Let_def)
qed

lemma handle_forward:
  assumes up: "routeByHosts cfg (req_hostname req) = upstream" "truthy upstream"
    and u: "req_url req = Some u"
    and p: "pathname u \<noteq> ''/v2/''" "pathname u \<noteq> ''/v2/auth''"
    and n: "upstream = Str dockerHub \<longrightarrow> length (str_split CHR ''/'' (pathname u)) \<noteq> 5"
  shows "handle e cfg req = forward e cfg upstream u req"
  using assms by (auto simp: handle_def Let_def)

lemma handle_no_redirect:
  assumes "routeByHosts cfg (req_hostname req) \<noteq> Str dockerHub"
  shows "fst (handle e cfg req) \<noteq> Inr (Redirect n loc)"
proof (cases "handle e cfg req")
  case (Pair x calls)
  show ?thesis
  proof (cases x)
    case (Inl err)
    with Pair show ?thesis by simp
  next
    case (Inr r)
    have "r \<noteq> Redirect n loc"
      using Pair Inr assms
      by (auto simp: handle_def Let_def responseUnauthorized_def
            split: option.splits if_splits dest: probe_reply auth_reply forward_reply)
    with Pair Inr show ?thesis by simp
  qed
qed

text \<open>
  Claim C3. With the default registry as the upstream, a request for
  \<^verbatim>\<open>/v2/<name>/<kind>/<ref>\<close> (five pieces between the slashes) is answered, without any
  upstream call, by a 301 to the URL of the request with \<^verbatim>\<open>library\<close> as a new piece after
  \<^verbatim>\<open>v2\<close> and all else as it was: the query behind its \<^verbatim>\<open>?\<close>, also when it is empty,
  the fragment and the credentials. A request for a path of six pieces is handed to the
  forwarder with its URL as it is; and with any other upstream no reply is a redirect.
\<close>

theorem library_redirect:
  "(routeByHosts cfg (req_hostname req) = Str dockerHub \<and> req_url req = Some u
      \<and> str_split CHR ''/'' (pathname u) = [[], ''v2'', name, kind, ref]
    \<longrightarrow> app e cfg req =
          (Redirect 301
             (protocol u @ ''//'' @ userinfo u @ host u
                @ ''/v2/library/'' @ name @ ''/'' @ kind @ ''/'' @ ref
                @ (case query u of None \<Rightarrow> [] | Some q \<Rightarrow> ''?'' @ q)
                @ (case fragment u of None \<Rightarrow> [] | Some f \<Rightarrow> ''#'' @ f)), []))
   \<and> (routeByHosts cfg (req_hostname req) = Str dockerHub \<and> req_url req = Some u
      \<and> str_split CHR ''/'' (pathname u) = [[], ''v2'', ns, name, kind, ref]
    \<longrightarrow> handle e cfg req = forward e cfg (Str dockerHub) u req
        \<and> fst (app e cfg req) \<noteq> Redirect n loc)
   \<and> (routeByHosts cfg (req_hostname req) \<noteq> Str dockerHub
    \<longrightarrow> fst (app e cfg req) \<noteq> Redirect n loc)"
proof (intro conjI impI)
  assume a: "routeByHosts cfg (req_hostname req) = Str dockerHub \<and> req_url req = Some u
      \<and> str_split CHR ''/'' (pathname u) = [[], ''v2'', name, kind, ref]"
  then have "handle e cfg req =
     (Inr (Redirect 301
        (href (u\<lparr>pathname :=
           str_join ''/'' (splice_insert 2 ''library'' (str_split CHR ''/'' (pathname u)))\<rparr>))), [])"
    by (intro handle_redirect) simp_all
  with a show "app e cfg req =
          (Redirect 301
             (protocol u @ ''//'' @ userinfo u @ host u
                @ ''/v2/library/'' @ name @ ''/'' @ kind @ ''/'' @ ref
                @ (case query u of None \<Rightarrow> [] | Some q \<Rightarrow> ''?'' @ q)
                @ (case fragment u of None \<Rightarrow> [] | Some f \<Rightarrow> ''#'' @ f)), [])"
    by (simp add: app_def href_def userinfo_def host_def splice_insert_def)
next
  assume a: "routeByHosts cfg (req_hostname req) = Str dockerHub \<and> req_url req = Some u
      \<and> str_split CHR ''/'' (pathname u) = [[], ''v2'', ns, name, kind, ref]"
  then have p: "pathname u \<noteq> ''/v2/'' \<and> pathname u \<noteq> ''/v2/auth''"
    using five_segments_not_v2 [of "pathname u"] by simp
  have t: "truthy (Str dockerHub)" by (simp add: dockerHub_def)
  show h: "handle e cfg req = forward e cfg (Str dockerHub) u req"
    using a p t by (intro handle_forward) simp_all
  show "fst (app e cfg req) \<noteq> Redirect n loc"
    using forward_reply [of e cfg "Str dockerHub" u req] h
    by (cases "forward e cfg (Str dockerHub) u req")
       (auto simp: fst_app responseUnauthorized_def split: sum.splits)
next
  assume "routeByHosts cfg (req_hostname req) \<noteq> Str dockerHub"
  from handle_no_redirect [OF this, of e n loc]
  show "fst (app e cfg req) \<noteq> Redirect n loc"
    by (auto simp: fst_app split: sum.splits)
qed

theorem library_redirect_witness:
  "routeByHosts production ''docker.example.com'' = Str dockerHub
   \<and> str_split CHR ''/'' ''/v2/busybox/manifests/latest''
       = [[], ''v2'', ''busybox'', ''manifests'', ''latest'']
   \<and> app example_env production
        (get_request ''docker.example.com'' [] Map.empty ''/v2/busybox/manifests/latest''
           (Some ''x=1'') [(''x'', ''1'')])
       = (Redirect 301 ''http://docker.example.com/v2/library/busybox/manifests/latest?x=1'', [])
   \<and> app example_env production
        (get_request ''docker.example.com'' [] Map.empty ''/v2/busybox/manifests/latest''
           (Some []) [])
       = (Redirect 301 ''http://docker.example.com/v2/library/busybox/manifests/latest?'', [])
   \<and> str_split CHR ''/'' ''/v2/library/busybox/manifests/latest''
       = [[], ''v2'', ''library'', ''busybox'', ''manifests'', ''latest'']
   \<and> handle example_env production
        (get_request ''docker.example.com'' [] Map.empty ''/v2/library/busybox/manifests/latest''
           None [])
       = forward example_env production (Str dockerHub)
           (client_url ''docker.example.com'' [] ''/v2/library/busybox/manifests/latest'' None [])
           (get_request ''docker.example.com'' [] Map.empty
              ''/v2/library/busybox/manifests/latest'' None [])
   \<and> fst (app example_env production
             (get_request ''docker.example.com'' [] Map.empty
                ''/v2/library/busybox/manifests/latest'' None []))
       \<noteq> Redirect 301 ''http://docker.example.com/v2/library/library/busybox/manifests/latest''
   \<and> routeByHosts production ''k8s.example.com'' \<noteq> Str dockerHub
   \<and> fst (app example_env production
             (get_request ''k8s.example.com'' [] Map.empty ''/v2/pause/manifests/3.9'' None []))
       \<noteq> Redirect 301 ''http://k8s.example.com/v2/library/pause/manifests/3.9''"
  using
    library_redirect
      [where cfg = production and e = example_env
         and req = "get_request ''docker.example.com'' [] Map.empty
                      ''/v2/busybox/manifests/latest'' (Some []) []"
         and u = "client_url ''docker.example.com'' [] ''/v2/busybox/manifests/latest''
                    (Some []) []"
         and name = "''busybox''" and kind = "''manifests''" and ref = "''latest''"]
    library_redirect
      [where cfg = production and e = example_env
         and req = "get_request ''docker.example.com'' [] Map.empty
                      ''/v2/busybox/manifests/latest'' (Some ''x=1'') [(''x'', ''1'')]"
         and u = "client_url ''docker.example.com'' [] ''/v2/busybox/manifests/latest''
                    (Some ''x=1'') [(''x'', ''1'')]"
         and name = "''busybox''" and kind = "''manifests''" and ref = "''latest''"]
    library_redirect
      [where cfg = production and e = example_env
         and req = "get_request ''docker.example.com'' [] Map.empty
                      ''/v2/library/busybox/manifests/latest'' None []"
         and u = "client_url ''docker.example.com'' [] ''/v2/library/busybox/manifests/latest''
                    None []"
         and ns = "''library''" and name = "''busybox''" and kind = "''manifests''"
         and ref = "''latest''" and n = 301
         and loc = "''http://docker.example.com/v2/library/library/busybox/manifests/latest''"]
    library_redirect
      [where cfg = production and e = example_env
         and req = "get_request ''k8s.example.com'' [] Map.empty ''/v2/pause/manifests/3.9''
                      None []"
         and n = 301 and loc = "''http://k8s.example.com/v2/library/pause/manifests/3.9''"]
  by (simp add: client_url_sel get_request_sel route_docker route_k8s dockerHub_def
        redirect_busybox redirect_busybox_bare_query manifest_anonymous
        other_registry_forwarded)

text \<open>
  Claim C9. With the default registry as the upstream, every request whose path has five
  pieces between its slashes is answered by the 301, whatever the pieces are: the new
  path has \<^verbatim>\<open>library\<close> as its third piece and the old pieces around it.
\<close>

theorem redirect_by_segment_count:
  assumes "routeByHosts cfg (req_hostname req) = Str dockerHub"
    and "req_url req = Some u"
    and "length (str_split CHR ''/'' (pathname u)) = 5"
  shows "app e cfg req =
           (Redirect 301
              (href (u\<lparr>pathname :=
                 str_join ''/''
                   (splice_insert 2 ''library'' (str_split CHR ''/'' (pathname u)))\<rparr>)), [])
         \<and> str_split CHR ''/''
             (str_join ''/'' (splice_insert 2 ''library'' (str_split CHR ''/'' (pathname u))))
           = take 2 (str_split CHR ''/'' (pathname u)) @ ''library''
               # drop 2 (str_split CHR ''/'' (pathname u))"
proof
  show "app e cfg req =
           (Redirect 301
              (href (u\<lparr>pathname :=
                 str_join ''/''
                   (splice_insert 2 ''library'' (str_split CHR ''/'' (pathname u)))\<rparr>)), [])"
    using handle_redirect [OF assms, of e] by (simp add: app_def)
next
  have "\<forall>p \<in> set (splice_insert 2 ''library'' (str_split CHR ''/'' (pathname u))).
          CHR ''/'' \<notin> set p"
    using str_split_no_sep [of _ "CHR ''/''" "pathname u"]
    by (auto simp: splice_insert_def dest: in_set_takeD in_set_dropD)
  moreover have "splice_insert 2 ''library'' (str_split CHR ''/'' (pathname u)) \<noteq> []"
    by (simp add: splice_insert_def)
  ultimately show "str_split CHR ''/''
             (str_join ''/'' (splice_insert 2 ''library'' (str_split CHR ''/'' (pathname u))))
           = take 2 (str_split CHR ''/'' (pathname u)) @ ''library''
               # drop 2 (str_split CHR ''/'' (pathname u))"
    using str_split_join
      [of "splice_insert 2 ''library'' (str_split CHR ''/'' (pathname u))" "CHR ''/''"]
    by (simp add: splice_insert_def)
qed

theorem redirect_by_segment_count_witness:
  "routeByHosts production ''docker.example.com'' = Str dockerHub
   \<and> length (str_split CHR ''/'' ''/a/b/c/d'') = 5
   \<and> app example_env production
        (get_request ''docker.example.com'' [] Map.empty ''/a/b/c/d'' None [])
       = (Redirect 301 ''http://docker.example.com/a/library/b/c/d'', [])
   \<and> app example_env production
        (get_request ''docker.example.com'' [] Map.empty ''/a/b/c/d'' (Some []) [])
       = (Redirect 301 ''http://docker.example.com/a/library/b/c/d?'', [])
   \<and> str_split CHR ''/'' ''/a/library/b/c/d'' = [[], ''a'', ''library'', ''b'', ''c'', ''d'']"
  using
    redirect_by_segment_count
      [where cfg = production and e = example_env
         and req = "get_request ''docker.example.com'' [] Map.empty ''/a/b/c/d'' None []"
         and u = "client_url ''docker.example.com'' [] ''/a/b/c/d'' None []"]
    redirect_by_segment_count
      [where cfg = production and e = example_env
         and req = "get_request ''docker.example.com'' [] Map.empty ''/a/b/c/d'' (Some []) []"
         and u = "client_url ''docker.example.com'' [] ''/a/b/c/d'' (Some []) []"]
  by (simp add: client_url_sel get_request_sel route_docker redirect_any_five
        redirect_any_five_bare_query)

subsection \<open>The headers of a forwarded request\<close>

text \<open>
  Claim C8. Every upstream call made for a request that reaches the forwarder carries
  the headers of the client with \<^verbatim>\<open>host\<close> set to the host of the upstream and
  \<^verbatim>\<open>accept-encoding\<close> removed; every other header is the client's.
\<close>

theorem forwarded_headers:
  assumes "truthy (routeByHosts cfg (req_hostname req))"
    and "req_url req = Some u"
    and "pathname u \<noteq> ''/v2/''" and "pathname u \<noteq> ''/v2/auth''"
    and "rq \<in> set (snd (app e cfg req))"
  shows "\<exists>up. URL e (to_str (routeByHosts cfg (req_hostname req))) = Some up
           \<and> fr_headers rq ''host'' = Some (host up)
           \<and> fr_headers rq ''accept-encoding'' = None
           \<and> (\<forall>k. k \<noteq> ''host'' \<and> k \<noteq> ''accept-encoding'' \<longrightarrow>
                 fr_headers rq k = req_headers req k)"
proof -
  from handle_branch [OF assms(1,2), of e] assms(3,4,5)
  have "rq \<in> set (snd (forward e cfg (routeByHosts cfg (req_hostname req)) u req))"
    by (auto simp: snd_app)
  then show ?thesis
    by (cases "URL e (to_str (routeByHosts cfg (req_hostname req)) @ pathname u @ search u)";
        cases "URL e (to_str (routeByHosts cfg (req_hostname req)))")
       (auto simp: forward_calls)
qed

theorem forwarded_headers_witness:
  "truthy (routeByHosts production ''docker.example.com'')
   \<and> snd (app example_env production
             (get_request ''docker.example.com'' []
                [''authorization'' \<mapsto> ''Bearer t'', ''accept-encoding'' \<mapsto> ''gzip'',
                 ''user-agent'' \<mapsto> ''docker/24.0'']
                ''/v2/library/busybox/manifests/latest'' None []))
      = [\<lparr>fr_url = registry_url ''registry-1.docker.io'' ''/v2/library/busybox/manifests/latest'',
          fr_params = [], fr_method = ''GET'',
          fr_headers =
            [''authorization'' \<mapsto> ''Bearer t'', ''user-agent'' \<mapsto> ''docker/24.0'',
             ''host'' \<mapsto> ''registry-1.docker.io''],
          fr_body = None\<rparr>]
   \<and> (\<exists>up. example_URL ''https://registry-1.docker.io'' = Some up
           \<and> host up = ''registry-1.docker.io'')"
proof -
  let ?req = "get_request ''docker.example.com'' []
                [''authorization'' \<mapsto> ''Bearer t'', ''accept-encoding'' \<mapsto> ''gzip'',
                 ''user-agent'' \<mapsto> ''docker/24.0'']
                ''/v2/library/busybox/manifests/latest'' None []"
  let ?rq = "\<lparr>fr_url = registry_url ''registry-1.docker.io'' ''/v2/library/busybox/manifests/latest'',
          fr_params = [], fr_method = ''GET'',
          fr_headers =
            [''authorization'' \<mapsto> ''Bearer t'', ''user-agent'' \<mapsto> ''docker/24.0'',
             ''host'' \<mapsto> ''registry-1.docker.io''],
          fr_body = None\<rparr>"
  have t: "truthy (routeByHosts production (req_hostname ?req))"
    by (simp add: get_request_sel route_docker dockerHub_nonempty)
  have u: "req_url ?req =
             Some (client_url ''docker.example.com'' [] ''/v2/library/busybox/manifests/latest''
                     None [])"
    by (simp add: get_request_sel)
  have p: "pathname (client_url ''docker.example.com'' []
                       ''/v2/library/busybox/manifests/latest'' None []) \<noteq> ''/v2/''"
    "pathname (client_url ''docker.example.com'' []
                 ''/v2/library/busybox/manifests/latest'' None []) \<noteq> ''/v2/auth''"
    by (simp_all add: client_url_sel)
  have calls: "snd (app example_env production ?req) = [?rq]"
    by (simp add: manifest_with_headers)
  then have m: "?rq \<in> set (snd (app example_env production ?req))"
    by simp
  from forwarded_headers [OF t u p m]
  obtain up where "URL example_env (to_str (routeByHosts production (req_hostname ?req))) = Some up"
    and "fr_headers ?rq ''host'' = Some (host up)"
    by blast
  then have "example_URL ''https://registry-1.docker.io'' = Some up
               \<and> host up = ''registry-1.docker.io''"
    by (simp add: get_request_sel route_docker dockerHub_def example_env_def)
  then have "\<exists>up. example_URL ''https://registry-1.docker.io'' = Some up
               \<and> host up = ''registry-1.docker.io''"
    by blast
  with t calls show ?thesis by (simp add: get_request_sel)
qed

subsection \<open>Where the Authorization header goes\<close>

lemma auth_later_calls:
  assumes "rq \<in> set (drop 1 (snd (auth e upstream d u a)))"
  shows "fr_headers rq = (if present a then [''Authorization'' \<mapsto> the a] else Map.empty)"
proof (cases "URL e (to_str upstream @ ''/v2/'')")
  case None
  with assms show ?thesis by (simp add: auth_calls)
next
  case (Some newUrl)
  let ?d = "\<lparr>fr_url = newUrl, fr_params = [], fr_method = ''GET'', fr_headers = Map.empty,
             fr_body = None\<rparr>"
  show ?thesis
  proof (cases "fetch e ?d")
    case None
    with assms Some show ?thesis by (simp add: auth_calls)
  next
    case resp: (Some resp)
    show ?thesis
    proof (cases "status resp = 401 \<and> present (headers resp ''www-authenticate'')")
      case False
      with assms Some resp show ?thesis by (simp add: auth_calls)
    next
      case True
      show ?thesis
      proof (cases "parseAuthenticate (the (headers resp ''www-authenticate''))")
        case (Inl err)
        with assms Some resp True show ?thesis by (simp add: auth_calls)
      next
        case (Inr ch)
        with assms Some resp True
        have "rq \<in> set (snd (fetchToken e ch (rewrite_scope d (searchParams_get u ''scope'')) a))"
          by (simp add: auth_calls)
        then show ?thesis
          by (cases "URL e (realm ch)") (simp_all add: fetchToken_calls)
      qed
    qed
  qed
qed

text \<open>
  Claim C10, as amended. The discovery call of the token exchange carries no header at
  all, so it is the same call, with the same response, for any two requests that differ
  in their \<^verbatim>\<open>Authorization\<close> header only. The \<^verbatim>\<open>Authorization\<close> header of the
  client goes out with the call of the probe endpoint, with the call to the token realm,
  and, among all the other headers of the client, with the call of the forwarder.
\<close>

theorem authorization_forwarding:
  assumes "truthy (routeByHosts cfg (req_hostname req))" and "req_url req = Some u"
  shows "(pathname u = ''/v2/auth'' \<longrightarrow>
            take 1 (snd (app e cfg
                           (req\<lparr>req_headers := (req_headers req)(''authorization'' := a)\<rparr>)))
              = take 1 (snd (app e cfg req))
            \<and> (\<forall>rq \<in> set (take 1 (snd (app e cfg req))). fr_headers rq = Map.empty)
            \<and> (\<forall>rq \<in> set (drop 1 (snd (app e cfg req))).
                  fr_headers rq =
                    (if present (req_headers req ''authorization'')
                     then [''Authorization'' \<mapsto> the (req_headers req ''authorization'')]
                     else Map.empty)))
         \<and> (pathname u = ''/v2/'' \<longrightarrow>
              (\<forall>rq \<in> set (snd (app e cfg req)).
                 fr_headers rq =
                   (if present (req_headers req ''authorization'')
                    then [''Authorization'' \<mapsto> the (req_headers req ''authorization'')]
                    else Map.empty)))
         \<and> (pathname u \<noteq> ''/v2/'' \<and> pathname u \<noteq> ''/v2/auth'' \<longrightarrow>
              (\<forall>rq \<in> set (snd (app e cfg req)).
                 fr_headers rq ''authorization'' = req_headers req ''authorization''))"
proof (intro conjI impI)
  assume p: "pathname u = ''/v2/auth''"
  let ?up = "routeByHosts cfg (req_hostname req)"
  let ?a = "req_headers req ''authorization''"
  have h: "snd (app e cfg req) = snd (auth e ?up (?up = Str dockerHub) u ?a)"
    using handle_auth [OF assms p, of e] by (simp add: snd_app)
  let ?req' = "req\<lparr>req_headers := (req_headers req)(''authorization'' := a)\<rparr>"
  have h': "snd (app e cfg ?req') = snd (auth e ?up (?up = Str dockerHub) u a)"
    using handle_auth [of cfg ?req' u e] assms p by (simp add: snd_app)
  show "take 1 (snd (app e cfg ?req')) = take 1 (snd (app e cfg req))"
    by (simp add: h h' auth_calls split: option.splits)
  show "\<forall>rq \<in> set (take 1 (snd (app e cfg req))). fr_headers rq = Map.empty"
    by (simp add: h auth_calls split: option.splits)
  show "\<forall>rq \<in> set (drop 1 (snd (app e cfg req))).
                  fr_headers rq =
                    (if present ?a then [''Authorization'' \<mapsto> the ?a] else Map.empty)"
    using auth_later_calls [of _ e ?up "?up = Str dockerHub" u ?a] by (simp add: h)
next
  assume p: "pathname u = ''/v2/''"
  show "\<forall>rq \<in> set (snd (app e cfg req)).
                 fr_headers rq =
                   (if present (req_headers req ''authorization'')
                    then [''Authorization'' \<mapsto> the (req_headers req ''authorization'')]
                    else Map.empty)"
    using handle_probe [OF assms p, of e]
    by (auto simp: snd_app probe_calls split: option.splits)
next
  assume p: "pathname u \<noteq> ''/v2/'' \<and> pathname u \<noteq> ''/v2/auth''"
  show "\<forall>rq \<in> set (snd (app e cfg req)).
                 fr_headers rq ''authorization'' = req_headers req ''authorization''"
    using handle_branch [OF assms, of e] p
    by (auto simp: snd_app forward_calls split: option.splits)
qed

theorem authorization_forwarding_witness:
  "truthy (routeByHosts production ''docker.example.com'')
   \<and> take 1 (snd (app example_env production
                   ((get_request ''docker.example.com'' []
                       [''authorization'' \<mapsto> ''Basic Zm9vOmJhcg==''] ''/v2/auth''
                       (Some ''scope=repository:busybox:pull'')
                       [(''scope'', ''repository:busybox:pull'')])
                    \<lparr>req_headers :=
                       (req_headers
                          (get_request ''docker.example.com'' []
                             [''authorization'' \<mapsto> ''Basic Zm9vOmJhcg==''] ''/v2/auth''
                             (Some ''scope=repository:busybox:pull'')
                             [(''scope'', ''repository:busybox:pull'')]))
                       (''authorization'' \<mapsto> ''Bearer t'')\<rparr>)))
       = take 1 (snd (app example_env production
                   (get_request ''docker.example.com'' []
                      [''authorization'' \<mapsto> ''Basic Zm9vOmJhcg==''] ''/v2/auth''
                      (Some ''scope=repository:busybox:pull'')
                      [(''scope'', ''repository:busybox:pull'')])))
   \<and> snd (app example_env production
            ((get_request ''docker.example.com'' []
                [''authorization'' \<mapsto> ''Basic Zm9vOmJhcg==''] ''/v2/auth''
                (Some ''scope=repository:busybox:pull'')
                [(''scope'', ''repository:busybox:pull'')])
             \<lparr>req_headers :=
                (req_headers
                   (get_request ''docker.example.com'' []
                      [''authorization'' \<mapsto> ''Basic Zm9vOmJhcg==''] ''/v2/auth''
                      (Some ''scope=repository:busybox:pull'')
                      [(''scope'', ''repository:busybox:pull'')]))
                (''authorization'' \<mapsto> ''Bearer t'')\<rparr>))
       = [\<lparr>fr_url = registry_url ''registry-1.docker.io'' ''/v2/'', fr_params = [],
           fr_method = ''GET'', fr_headers = Map.empty, fr_body = None\<rparr>,
          \<lparr>fr_url = registry_url ''auth.docker.io'' ''/token'',
           fr_params =
             [(''service'', ''registry.docker.io''),
              (''scope'', ''repository:library/busybox:pull'')],
           fr_method = ''GET'',
           fr_headers = [''Authorization'' \<mapsto> ''Bearer t''], fr_body = None\<rparr>]
   \<and> snd (app example_env production
            (get_request ''docker.example.com'' []
               [''authorization'' \<mapsto> ''Basic Zm9vOmJhcg==''] ''/v2/auth''
               (Some ''scope=repository:busybox:pull'') [(''scope'', ''repository:busybox:pull'')]))
       = [\<lparr>fr_url = registry_url ''registry-1.docker.io'' ''/v2/'', fr_params = [],
           fr_method = ''GET'', fr_headers = Map.empty, fr_body = None\<rparr>,
          \<lparr>fr_url = registry_url ''auth.docker.io'' ''/token'',
           fr_params =
             [(''service'', ''registry.docker.io''),
              (''scope'', ''repository:library/busybox:pull'')],
           fr_method = ''GET'',
           fr_headers = [''Authorization'' \<mapsto> ''Basic Zm9vOmJhcg==''], fr_body = None\<rparr>]
   \<and> snd (app example_env production
            (get_request ''docker.example.com'' []
               [''authorization'' \<mapsto> ''Basic Zm9vOmJhcg==''] ''/v2/'' None []))
       = [\<lparr>fr_url = registry_url ''registry-1.docker.io'' ''/v2/'', fr_params = [],
           fr_method = ''GET'',
           fr_headers = [''Authorization'' \<mapsto> ''Basic Zm9vOmJhcg==''], fr_body = None\<rparr>]
   \<and> map (\<lambda>rq. fr_headers rq ''authorization'')
         (snd (app example_env production
                 (get_request ''docker.example.com'' [] [''authorization'' \<mapsto> ''Bearer t'']
                    ''/v2/library/busybox/manifests/latest'' None [])))
       = [Some ''Bearer t'']"
proof -
  let ?R = "get_request ''docker.example.com'' []
              [''authorization'' \<mapsto> ''Basic Zm9vOmJhcg==''] ''/v2/auth''
              (Some ''scope=repository:busybox:pull'')
              [(''scope'', ''repository:busybox:pull'')]"
  let ?U = "client_url ''docker.example.com'' [] ''/v2/auth''
              (Some ''scope=repository:busybox:pull'')
              [(''scope'', ''repository:busybox:pull'')]"
  have t: "truthy (routeByHosts production (req_hostname ?R))"
    by (simp add: get_request_sel route_docker dockerHub_nonempty)
  have u: "req_url ?R = Some ?U"
    by (simp add: get_request_sel)
  have p: "pathname ?U = ''/v2/auth''"
    by (simp add: client_url_sel)
  have same:
    "take 1 (snd (app example_env production
                    (?R\<lparr>req_headers := (req_headers ?R)(''authorization'' \<mapsto> ''Bearer t'')\<rparr>)))
       = take 1 (snd (app example_env production ?R))"
    using authorization_forwarding [OF t u, where e = example_env and a = "Some ''Bearer t''"] p
    by simp
  have others:
    "snd (app example_env production
            (get_request ''docker.example.com'' []
               [''authorization'' \<mapsto> ''Basic Zm9vOmJhcg==''] ''/v2/'' None []))
       = [\<lparr>fr_url = registry_url ''registry-1.docker.io'' ''/v2/'', fr_params = [],
           fr_method = ''GET'',
           fr_headers = [''Authorization'' \<mapsto> ''Basic Zm9vOmJhcg==''], fr_body = None\<rparr>]
     \<and> map (\<lambda>rq. fr_headers rq ''authorization'')
           (snd (app example_env production
                   (get_request ''docker.example.com'' [] [''authorization'' \<mapsto> ''Bearer t'']
                      ''/v2/library/busybox/manifests/latest'' None [])))
         = [Some ''Bearer t'']"
    using
      authorization_forwarding
        [where cfg = production and e = example_env
           and req = "get_request ''docker.example.com'' []
                        [''authorization'' \<mapsto> ''Basic Zm9vOmJhcg==''] ''/v2/'' None []"
           and u = "client_url ''docker.example.com'' [] ''/v2/'' None []"]
      authorization_forwarding
        [where cfg = production and e = example_env
           and req = "get_request ''docker.example.com'' [] [''authorization'' \<mapsto> ''Bearer t'']
                        ''/v2/library/busybox/manifests/latest'' None []"
           and u = "client_url ''docker.example.com'' []
                      ''/v2/library/busybox/manifests/latest'' None []"]
    by (simp add: client_url_sel get_request_sel route_docker dockerHub_nonempty
          probe_with_credentials manifest_with_token)
  show ?thesis
    using same others
    by (simp add: route_docker dockerHub_nonempty token_with_credentials
          token_with_other_credentials)
qed

text \<open>
  Claim C10 as it is stated fails at the forwarder: a request for a manifest is neither
  for the probe endpoint nor for the token realm, and its upstream call carries the
  \<^verbatim>\<open>Authorization\<close> header of the client.
\<close>

theorem authorization_forwarded_counterexample:
  "pathname (client_url ''docker.example.com'' [] ''/v2/library/busybox/manifests/latest'' None [])
     \<noteq> ''/v2/''
   \<and> pathname (client_url ''docker.example.com'' [] ''/v2/library/busybox/manifests/latest'' None [])
     \<noteq> ''/v2/auth''
   \<and> req_headers
        (get_request ''docker.example.com'' [] [''authorization'' \<mapsto> ''Bearer t'']
           ''/v2/library/busybox/manifests/latest'' None []) ''authorization''
       = Some ''Bearer t''
   \<and> snd (app example_env production
            (get_request ''docker.example.com'' [] [''authorization'' \<mapsto> ''Bearer t'']
               ''/v2/library/busybox/manifests/latest'' None []))
       = [\<lparr>fr_url =
             registry_url ''registry-1.docker.io'' ''/v2/library/busybox/manifests/latest'',
           fr_params = [], fr_method = ''GET'',
           fr_headers =
             [''authorization'' \<mapsto> ''Bearer t'', ''host'' \<mapsto> ''registry-1.docker.io''],
           fr_body = None\<rparr>]
   \<and> fst (app example_env production
            (get_request ''docker.example.com'' [] [''authorization'' \<mapsto> ''Bearer t'']
               ''/v2/library/busybox/manifests/latest'' None []))
       = Relay manifest_served"
  by (simp add: client_url_sel get_request_sel manifest_with_token)

subsection \<open>A 401 from the upstream\<close>

lemma probe_unauthorized:
  assumes "rq \<in> set (snd (probe e cfg upstream u a))"
    and "fetch e rq = Some resp" and "status resp = 401"
  shows "fst (probe e cfg upstream u a) = Inr (responseUnauthorized cfg u)"
proof (cases "URL e (to_str upstream @ ''/v2/'')")
  case None
  with assms(1) show ?thesis by (simp add: probe_calls)
next
  case (Some newUrl)
  with assms(1) have "rq =
      \<lparr>fr_url = newUrl, fr_params = [], fr_method = ''GET'',
       fr_headers = (if present a then [''Authorization'' \<mapsto> the a] else Map.empty),
       fr_body = None\<rparr>"
    by (simp add: probe_calls)
  with assms(2,3) Some show ?thesis by (simp add: probe_def do_fetch_def)
qed

lemma forward_unauthorized:
  assumes "rq \<in> set (snd (forward e cfg upstream u req))"
    and "fetch e rq = Some resp" and "status resp = 401"
  shows "fst (forward e cfg upstream u req) = Inr (responseUnauthorized cfg u)"
proof (cases "URL e (to_str upstream @ pathname u @ search u)")
  case None
  with assms(1) show ?thesis by (simp add: forward_calls)
next
  case newUrl: (Some newUrl)
  show ?thesis
  proof (cases "URL e (to_str upstream)")
    case None
    with assms(1) newUrl show ?thesis by (simp add: forward_calls)
  next
    case (Some up)
    with assms(1) newUrl have "rq =
        \<lparr>fr_url = newUrl, fr_params = [], fr_method = req_method req,
         fr_headers = ((req_headers req)(''host'' \<mapsto> host up))(''accept-encoding'' := None),
         fr_body =
           (if req_method req \<noteq> ''GET'' \<and> req_method req \<noteq> ''HEAD''
            then Some (req_body req) else None)\<rparr>"
      by (simp add: forward_calls)
    with assms(2,3) newUrl Some show ?thesis by (simp add: forward_def do_fetch_def)
  qed
qed

text \<open>
  Claim C1, as amended. When an upstream call made for a request outside \<^verbatim>\<open>/v2/auth\<close>
  (the probe or the forwarder) returns 401, the reply is the Unauthorized Response, whose
  realm is the host of the proxy followed by \<^verbatim>\<open>/v2/auth\<close>. The token exchange never
  writes that reply. When the answer of the registry to the discovery call is no 401 or
  has no challenge, the reply is that answer as it is, and no other call is made. When
  it is a 401 with a challenge that can be parsed and the token realm answers, the reply
  is the answer of the token realm as it is, whatever its status and headers. The reply
  is the 500 of the error handler only when the address of the registry or of the token
  realm is no URL, when an upstream call fails, or when the challenge cannot be parsed.
\<close>

theorem upstream_unauthorized:
  assumes "truthy (routeByHosts cfg (req_hostname req))" and "req_url req = Some u"
  shows \<open>(pathname u \<noteq> ''/v2/auth'' \<and> rq \<in> set (snd (app e cfg req))
            \<and> fetch e rq = Some resp \<and> status resp = 401
          \<longrightarrow> fst (app e cfg req) = responseUnauthorized cfg u
              \<and> responseUnauthorized cfg u =
                  Json 401
                    [''WWW-Authenticate'' \<mapsto>
                       ''Bearer realm="''
                         @ (if MODE cfg = ''debug'' then ''http://'' @ host u
                            else ''https://'' @ hostname u)
                         @ ''/v2/auth",service="docker-repository-proxy"'']
                    (Message ''UNAUTHORIZED''))
         \<and> (pathname u = ''/v2/auth''
            \<and> URL e (to_str (routeByHosts cfg (req_hostname req)) @ ''/v2/'') = Some newUrl
            \<and> fetch e \<lparr>fr_url = newUrl, fr_params = [], fr_method = ''GET'',
                        fr_headers = Map.empty, fr_body = None\<rparr> = Some found
            \<and> (status found \<noteq> 401 \<or> \<not> present (headers found ''www-authenticate''))
          \<longrightarrow> app e cfg req =
                (Relay found,
                 [\<lparr>fr_url = newUrl, fr_params = [], fr_method = ''GET'',
                   fr_headers = Map.empty, fr_body = None\<rparr>]))
         \<and> (pathname u = ''/v2/auth''
            \<and> URL e (to_str (routeByHosts cfg (req_hostname req)) @ ''/v2/'') = Some newUrl
            \<and> fetch e \<lparr>fr_url = newUrl, fr_params = [], fr_method = ''GET'',
                        fr_headers = Map.empty, fr_body = None\<rparr> = Some found
            \<and> status found = 401 \<and> present (headers found ''www-authenticate'')
            \<and> parseAuthenticate (the (headers found ''www-authenticate'')) = Inr ch
            \<and> URL e (realm ch) = Some t
            \<and> fetch e
                 \<lparr>fr_url = t,
                  fr_params =
                    (if service ch \<noteq> [] then [(''service'', service ch)] else [])
                    @ (if present
                            (rewrite_scope (routeByHosts cfg (req_hostname req) = Str dockerHub)
                               (searchParams_get u ''scope''))
                       then [(''scope'',
                              the (rewrite_scope
                                     (routeByHosts cfg (req_hostname req) = Str dockerHub)
                                     (searchParams_get u ''scope'')))]
                       else []),
                  fr_method = ''GET'',
                  fr_headers =
                    (if present (req_headers req ''authorization'')
                     then [''Authorization'' \<mapsto> the (req_headers req ''authorization'')]
                     else Map.empty),
                  fr_body = None\<rparr> = Some tokenResp
          \<longrightarrow> app e cfg req =
                (Relay tokenResp,
                 [\<lparr>fr_url = newUrl, fr_params = [], fr_method = ''GET'',
                   fr_headers = Map.empty, fr_body = None\<rparr>,
                  \<lparr>fr_url = t,
                   fr_params =
                     (if service ch \<noteq> [] then [(''service'', service ch)] else [])
                     @ (if present
                             (rewrite_scope (routeByHosts cfg (req_hostname req) = Str dockerHub)
                                (searchParams_get u ''scope''))
                        then [(''scope'',
                               the (rewrite_scope
                                      (routeByHosts cfg (req_hostname req) = Str dockerHub)
                                      (searchParams_get u ''scope'')))]
                        else []),
                   fr_method = ''GET'',
                   fr_headers =
                     (if present (req_headers req ''authorization'')
                      then [''Authorization'' \<mapsto> the (req_headers req ''authorization'')]
                      else Map.empty),
                   fr_body = None\<rparr>]))
         \<and> (pathname u = ''/v2/auth''
            \<and> fst (app e cfg req) = Send 500 ''Internal Server Error''
          \<longrightarrow> URL e (to_str (routeByHosts cfg (req_hostname req)) @ ''/v2/'') = None
              \<or> (\<exists>rq' \<in> set (snd (app e cfg req)). fetch e rq' = None)
              \<or> (\<exists>n challenged.
                    URL e (to_str (routeByHosts cfg (req_hostname req)) @ ''/v2/'') = Some n
                    \<and> fetch e \<lparr>fr_url = n, fr_params = [], fr_method = ''GET'',
                                fr_headers = Map.empty, fr_body = None\<rparr> = Some challenged
                    \<and> status challenged = 401
                    \<and> present (headers challenged ''www-authenticate'')
                    \<and> (case parseAuthenticate (the (headers challenged ''www-authenticate'')) of
                          Inl err \<Rightarrow> True
                        | Inr ch' \<Rightarrow> URL e (realm ch') = None)))
         \<and> (pathname u = ''/v2/auth''
          \<longrightarrow> fst (app e cfg req) \<noteq> responseUnauthorized cfg' u')\<close>
proof (intro conjI impI)
  assume a: "pathname u \<noteq> ''/v2/auth'' \<and> rq \<in> set (snd (app e cfg req))
            \<and> fetch e rq = Some resp \<and> status resp = 401"
  from handle_branch [OF assms, of e] a
  have "fst (handle e cfg req) = Inr (responseUnauthorized cfg u)"
    by (auto simp: snd_app dest: probe_unauthorized forward_unauthorized)
  then show "fst (app e cfg req) = responseUnauthorized cfg u"
    by (simp add: fst_app)
next
  show \<open>responseUnauthorized cfg u =
          Json 401
            [''WWW-Authenticate'' \<mapsto>
               ''Bearer realm="''
                 @ (if MODE cfg = ''debug'' then ''http://'' @ host u
                    else ''https://'' @ hostname u)
                 @ ''/v2/auth",service="docker-repository-proxy"'']
            (Message ''UNAUTHORIZED'')\<close>
    by (simp add: responseUnauthorized_def)
next
  let ?up = "routeByHosts cfg (req_hostname req)"
  let ?d = "\<lparr>fr_url = newUrl, fr_params = [], fr_method = ''GET'',
             fr_headers = Map.empty, fr_body = None\<rparr>"
  assume a: "pathname u = ''/v2/auth''
            \<and> URL e (to_str ?up @ ''/v2/'') = Some newUrl
            \<and> fetch e ?d = Some found
            \<and> (status found \<noteq> 401 \<or> \<not> present (headers found ''www-authenticate''))"
  then have "handle e cfg req =
               auth e ?up (?up = Str dockerHub) u (req_headers req ''authorization'')"
    using assms by (simp add: handle_auth)
  with a show "app e cfg req = (Relay found, [?d])"
    by (auto simp: app_def auth_table)
next
  let ?up = "routeByHosts cfg (req_hostname req)"
  let ?d = "\<lparr>fr_url = newUrl, fr_params = [], fr_method = ''GET'',
             fr_headers = Map.empty, fr_body = None\<rparr>"
  let ?sc = "rewrite_scope (?up = Str dockerHub) (searchParams_get u ''scope'')"
  let ?a = "req_headers req ''authorization''"
  let ?t = "\<lparr>fr_url = t,
             fr_params =
               (if service ch \<noteq> [] then [(''service'', service ch)] else [])
               @ (if present ?sc then [(''scope'', the ?sc)] else []),
             fr_method = ''GET'',
             fr_headers = (if present ?a then [''Authorization'' \<mapsto> the ?a] else Map.empty),
             fr_body = None\<rparr>"
  assume a: "pathname u = ''/v2/auth''
            \<and> URL e (to_str ?up @ ''/v2/'') = Some newUrl
            \<and> fetch e ?d = Some found
            \<and> status found = 401 \<and> present (headers found ''www-authenticate'')
            \<and> parseAuthenticate (the (headers found ''www-authenticate'')) = Inr ch
            \<and> URL e (realm ch) = Some t
            \<and> fetch e ?t = Some tokenResp"
  then have h: "handle e cfg req = auth e ?up (?up = Str dockerHub) u ?a"
    using assms by (simp add: handle_auth)
  from a have "auth e ?up (?up = Str dockerHub) u ?a = (Inr (Relay tokenResp), [?d, ?t])"
    by (simp add: auth_table)
  with h show "app e cfg req = (Relay tokenResp, [?d, ?t])"
    by (simp add: app_def)
next
  let ?up = "routeByHosts cfg (req_hostname req)"
  let ?a = "req_headers req ''authorization''"
  assume a: "pathname u = ''/v2/auth''
            \<and> fst (app e cfg req) = Send 500 ''Internal Server Error''"
  then have h: "handle e cfg req = auth e ?up (?up = Str dockerHub) u ?a"
    using assms by (simp add: handle_auth)
  show "URL e (to_str ?up @ ''/v2/'') = None
          \<or> (\<exists>rq' \<in> set (snd (app e cfg req)). fetch e rq' = None)
          \<or> (\<exists>n challenged.
                URL e (to_str ?up @ ''/v2/'') = Some n
                \<and> fetch e \<lparr>fr_url = n, fr_params = [], fr_method = ''GET'',
                            fr_headers = Map.empty, fr_body = None\<rparr> = Some challenged
                \<and> status challenged = 401
                \<and> present (headers challenged ''www-authenticate'')
                \<and> (case parseAuthenticate (the (headers challenged ''www-authenticate'')) of
                      Inl err \<Rightarrow> True
                    | Inr ch' \<Rightarrow> URL e (realm ch') = None))"
  proof (cases "URL e (to_str ?up @ ''/v2/'')")
    case None
    then show ?thesis by simp
  next
    case newUrl: (Some n)
    let ?d = "\<lparr>fr_url = n, fr_params = [], fr_method = ''GET'',
               fr_headers = Map.empty, fr_body = None\<rparr>"
    show ?thesis
    proof (cases "fetch e ?d")
      case None
      with newUrl h have "?d \<in> set (snd (app e cfg req))"
        by (simp add: app_def auth_table)
      with None show ?thesis by blast
    next
      case found: (Some f)
      show ?thesis
      proof (cases "status f \<noteq> 401 \<or> \<not> present (headers f ''www-authenticate'')")
        case True
        with newUrl found h a show ?thesis
          by (auto simp: app_def auth_table)
      next
        case challenge: False
        show ?thesis
        proof (cases "parseAuthenticate (the (headers f ''www-authenticate''))")
          case (Inl err)
          with newUrl found challenge show ?thesis by simp
        next
          case (Inr c)
          show ?thesis
          proof (cases "URL e (realm c)")
            case None
            with newUrl found challenge Inr show ?thesis by simp
          next
            case realm: (Some r)
            let ?sc = "rewrite_scope (?up = Str dockerHub) (searchParams_get u ''scope'')"
            let ?t = "\<lparr>fr_url = r,
                       fr_params =
                         (if service c \<noteq> [] then [(''service'', service c)] else [])
                         @ (if present ?sc then [(''scope'', the ?sc)] else []),
                       fr_method = ''GET'',
                       fr_headers =
                         (if present ?a then [''Authorization'' \<mapsto> the ?a] else Map.empty),
                       fr_body = None\<rparr>"
            show ?thesis
            proof (cases "fetch e ?t")
              case None
              with newUrl found challenge Inr realm h have "?t \<in> set (snd (app e cfg req))"
                by (simp add: app_def auth_table)
              with None show ?thesis by blast
            next
              case (Some tr)
              with newUrl found challenge Inr realm h a show ?thesis
                by (simp add: app_def auth_table)
            qed
          qed
        qed
      qed
    qed
  qed
next
  let ?up = "routeByHosts cfg (req_hostname req)"
  assume p: "pathname u = ''/v2/auth''"
  have h: "handle e cfg req =
             auth e ?up (?up = Str dockerHub) u (req_headers req ''authorization'')"
    using assms p by (rule handle_auth)
  show "fst (app e cfg req) \<noteq> responseUnauthorized cfg' u'"
  proof (cases "handle e cfg req")
    case (Pair x calls)
    show ?thesis
    proof (cases x)
      case (Inl err)
      with Pair show ?thesis by (simp add: app_def responseUnauthorized_def)
    next
      case (Inr r)
      with Pair h auth_relays [of e ?up "?up = Str dockerHub" u _ r calls]
      show ?thesis by (auto simp: app_def responseUnauthorized_def)
    qed
  qed
qed

theorem upstream_unauthorized_witness:
  \<open>truthy (routeByHosts production ''docker.example.com'')
   \<and> fetch example_env
        \<lparr>fr_url = registry_url ''registry-1.docker.io'' ''/v2/'', fr_params = [],
         fr_method = ''GET'', fr_headers = Map.empty, fr_body = None\<rparr>
       = Some registry_challenge
   \<and> status registry_challenge = 401
   \<and> app example_env production
        (get_request ''docker.example.com'' [] Map.empty ''/v2/'' None [])
       = (Json 401
            [''WWW-Authenticate'' \<mapsto>
               ''Bearer realm="https://docker.example.com/v2/auth",service="docker-repository-proxy"'']
            (Message ''UNAUTHORIZED''),
          [\<lparr>fr_url = registry_url ''registry-1.docker.io'' ''/v2/'', fr_params = [],
            fr_method = ''GET'', fr_headers = Map.empty, fr_body = None\<rparr>])
   \<and> headers registry_challenge ''www-authenticate''
       = Some ''Bearer realm="https://auth.docker.io/token",service="registry.docker.io"''
   \<and> fetch example_env
        \<lparr>fr_url = registry_url ''auth.docker.io'' ''/token'',
         fr_params =
           [(''service'', ''registry.docker.io''),
            (''scope'', ''repository:library/busybox:pull'')],
         fr_method = ''GET'', fr_headers = Map.empty, fr_body = None\<rparr>
       = Some token_granted
   \<and> app example_env production
        (get_request ''docker.example.com'' [] Map.empty ''/v2/auth''
           (Some ''scope=repository:busybox:pull'') [(''scope'', ''repository:busybox:pull'')])
       = (Relay token_granted,
          [\<lparr>fr_url = registry_url ''registry-1.docker.io'' ''/v2/'', fr_params = [],
            fr_method = ''GET'', fr_headers = Map.empty, fr_body = None\<rparr>,
           \<lparr>fr_url = registry_url ''auth.docker.io'' ''/token'',
            fr_params =
              [(''service'', ''registry.docker.io''),
               (''scope'', ''repository:library/busybox:pull'')],
            fr_method = ''GET'', fr_headers = Map.empty, fr_body = None\<rparr>])
   \<and> truthy (routeByHosts production ''quay.example.com'')
   \<and> fetch example_env
        \<lparr>fr_url = registry_url ''quay.io'' ''/v2/'', fr_params = [],
         fr_method = ''GET'', fr_headers = Map.empty, fr_body = None\<rparr>
       = Some registry_open
   \<and> status registry_open = 200
   \<and> app example_env production
        (get_request ''quay.example.com'' [] Map.empty ''/v2/auth''
           (Some ''scope=repository:pause:pull'') [(''scope'', ''repository:pause:pull'')])
       = (Relay registry_open,
          [\<lparr>fr_url = registry_url ''quay.io'' ''/v2/'', fr_params = [],
            fr_method = ''GET'', fr_headers = Map.empty, fr_body = None\<rparr>])
   \<and> truthy (routeByHosts production ''ghcr.example.com'')
   \<and> fst (app example_env production
             (get_request ''ghcr.example.com'' [] Map.empty ''/v2/auth''
                (Some ''scope=repository:pause:pull'') [(''scope'', ''repository:pause:pull'')]))
       = Send 500 ''Internal Server Error''
   \<and> fetch example_env
        \<lparr>fr_url = registry_url ''ghcr.io'' ''/v2/'', fr_params = [],
         fr_method = ''GET'', fr_headers = Map.empty, fr_body = None\<rparr>
       = None\<close>
proof -
  let ?scope = "[(''scope'', ''repository:busybox:pull'')]"
  let ?pause = "[(''scope'', ''repository:pause:pull'')]"
  have probe:
    \<open>app example_env production
        (get_request ''docker.example.com'' [] Map.empty ''/v2/'' None [])
       = (Json 401
            [''WWW-Authenticate'' \<mapsto>
               ''Bearer realm="https://docker.example.com/v2/auth",service="docker-repository-proxy"'']
            (Message ''UNAUTHORIZED''),
          [\<lparr>fr_url = registry_url ''registry-1.docker.io'' ''/v2/'', fr_params = [],
            fr_method = ''GET'', fr_headers = Map.empty, fr_body = None\<rparr>])\<close>
    using
      upstream_unauthorized
        [where cfg = production and e = example_env
           and req = "get_request ''docker.example.com'' [] Map.empty ''/v2/'' None []"
           and u = "client_url ''docker.example.com'' [] ''/v2/'' None []"
           and rq = "\<lparr>fr_url = registry_url ''registry-1.docker.io'' ''/v2/'', fr_params = [],
                      fr_method = ''GET'', fr_headers = Map.empty, fr_body = None\<rparr>"
           and resp = registry_challenge]
    by (simp add: client_url_sel get_request_sel route_docker dockerHub_nonempty
          mode_production probe_anonymous fetch_discovery example_statuses
          responseUnauthorized_def)
  have token:
    "app example_env production
       (get_request ''docker.example.com'' [] Map.empty ''/v2/auth''
          (Some ''scope=repository:busybox:pull'') ?scope)
       = (Relay token_granted,
          [\<lparr>fr_url = registry_url ''registry-1.docker.io'' ''/v2/'', fr_params = [],
            fr_method = ''GET'', fr_headers = Map.empty, fr_body = None\<rparr>,
           \<lparr>fr_url = registry_url ''auth.docker.io'' ''/token'',
            fr_params =
              [(''service'', ''registry.docker.io''),
               (''scope'', ''repository:library/busybox:pull'')],
            fr_method = ''GET'', fr_headers = Map.empty, fr_body = None\<rparr>])"
    using
      upstream_unauthorized
        [where cfg = production and e = example_env
           and req = "get_request ''docker.example.com'' [] Map.empty ''/v2/auth''
                        (Some ''scope=repository:busybox:pull'') ?scope"
           and u = "client_url ''docker.example.com'' [] ''/v2/auth''
                      (Some ''scope=repository:busybox:pull'') ?scope"
           and newUrl = "registry_url ''registry-1.docker.io'' ''/v2/''"
           and found = registry_challenge
           and ch = "\<lparr>realm = ''https://auth.docker.io/token'',
                      service = ''registry.docker.io''\<rparr>"
           and t = "registry_url ''auth.docker.io'' ''/token''"
           and tokenResp = token_granted]
    by (simp add: client_url_sel get_request_sel route_docker dockerHub_nonempty
          token_anonymous)
  have relayed:
    "app example_env production
       (get_request ''quay.example.com'' [] Map.empty ''/v2/auth''
          (Some ''scope=repository:pause:pull'') ?pause)
       = (Relay registry_open,
          [\<lparr>fr_url = registry_url ''quay.io'' ''/v2/'', fr_params = [],
            fr_method = ''GET'', fr_headers = Map.empty, fr_body = None\<rparr>])"
    using
      upstream_unauthorized
        [where cfg = production and e = example_env
           and req = "get_request ''quay.example.com'' [] Map.empty ''/v2/auth''
                        (Some ''scope=repository:pause:pull'') ?pause"
           and u = "client_url ''quay.example.com'' [] ''/v2/auth''
                      (Some ''scope=repository:pause:pull'') ?pause"
           and newUrl = "registry_url ''quay.io'' ''/v2/''"
           and found = registry_open]
    by (simp add: client_url_sel get_request_sel route_quay token_open_registry)
  have failed:
    "fst (app example_env production
            (get_request ''ghcr.example.com'' [] Map.empty ''/v2/auth''
               (Some ''scope=repository:pause:pull'') ?pause))
       = Send 500 ''Internal Server Error''"
    using
      upstream_unauthorized
        [where cfg = production and e = example_env
           and req = "get_request ''ghcr.example.com'' [] Map.empty ''/v2/auth''
                        (Some ''scope=repository:pause:pull'') ?pause"
           and u = "client_url ''ghcr.example.com'' [] ''/v2/auth''
                      (Some ''scope=repository:pause:pull'') ?pause"]
    by (simp add: client_url_sel get_request_sel route_ghcr token_unreachable_registry)
  show ?thesis
    using probe token relayed failed
    by (simp add: route_docker route_quay route_ghcr dockerHub_nonempty fetch_discovery
          fetch_examples example_statuses registry_challenge_def)
qed

text \<open>
  Claim C1 as it is stated fails at the token exchange. The registry answers the
  discovery call with 401 and the client, served by the token realm, gets a 200; and when
  the token realm itself answers 401, the client gets that response with the challenge
  of the upstream in it.
\<close>

theorem token_exchange_counterexample:
  \<open>fetch example_env
      \<lparr>fr_url = registry_url ''registry-1.docker.io'' ''/v2/'', fr_params = [],
       fr_method = ''GET'', fr_headers = Map.empty, fr_body = None\<rparr>
     = Some registry_challenge
   \<and> status registry_challenge = 401
   \<and> app example_env production
        (get_request ''docker.example.com'' [] Map.empty ''/v2/auth''
           (Some ''scope=repository:busybox:pull'') [(''scope'', ''repository:busybox:pull'')])
       = (Relay token_granted,
          [\<lparr>fr_url = registry_url ''registry-1.docker.io'' ''/v2/'', fr_params = [],
            fr_method = ''GET'', fr_headers = Map.empty, fr_body = None\<rparr>,
           \<lparr>fr_url = registry_url ''auth.docker.io'' ''/token'',
            fr_params =
              [(''service'', ''registry.docker.io''),
               (''scope'', ''repository:library/busybox:pull'')],
            fr_method = ''GET'', fr_headers = Map.empty, fr_body = None\<rparr>])
   \<and> status token_granted = 200
   \<and> fetch example_env
        \<lparr>fr_url = registry_url ''auth.docker.io'' ''/token'',
         fr_params =
           [(''service'', ''registry.docker.io''),
            (''scope'', ''repository:library/busybox:pull'')],
         fr_method = ''GET'',
         fr_headers = [''Authorization'' \<mapsto> ''Basic Zm9vOmJhcg==''], fr_body = None\<rparr>
       = Some token_refusal
   \<and> status token_refusal = 401
   \<and> fst (app example_env production
             (get_request ''docker.example.com'' []
                [''authorization'' \<mapsto> ''Basic Zm9vOmJhcg==''] ''/v2/auth''
                (Some ''scope=repository:busybox:pull'') [(''scope'', ''repository:busybox:pull'')]))
       = Relay token_refusal
   \<and> headers token_refusal ''www-authenticate''
       = Some ''Basic realm="https://auth.docker.io/token"''
   \<and> Relay token_refusal
       \<noteq> responseUnauthorized production
           (client_url ''docker.example.com'' [] ''/v2/auth'' (Some ''scope=repository:busybox:pull'')
              [(''scope'', ''repository:busybox:pull'')])\<close>
  by (simp add: token_anonymous token_with_credentials fetch_discovery
        fetch_token_with_credentials example_statuses token_refusal_def
        responseUnauthorized_def)

subsection \<open>The scope of the token request\<close>

text \<open>The scope parameter set on the call to the token realm is the rewritten scope.\<close>

lemma auth_token_scope:
  assumes "snd (auth e upstream d u a) = [dc, t]"
  shows "map_of (fr_params t) ''scope'' =
           (if present (rewrite_scope d (searchParams_get u ''scope''))
            then rewrite_scope d (searchParams_get u ''scope'') else None)"
proof (cases "URL e (to_str upstream @ ''/v2/'')")
  case None
  with assms show ?thesis by (simp add: auth_calls)
next
  case (Some newUrl)
  let ?d = "\<lparr>fr_url = newUrl, fr_params = [], fr_method = ''GET'', fr_headers = Map.empty,
             fr_body = None\<rparr>"
  show ?thesis
  proof (cases "fetch e ?d")
    case None
    with assms Some show ?thesis by (simp add: auth_calls)
  next
    case resp: (Some resp)
    show ?thesis
    proof (cases "status resp = 401 \<and> present (headers resp ''www-authenticate'')")
      case False
      with assms Some resp show ?thesis by (simp add: auth_calls)
    next
      case True
      show ?thesis
      proof (cases "parseAuthenticate (the (headers resp ''www-authenticate''))")
        case (Inl err)
        with assms Some resp True show ?thesis by (simp add: auth_calls)
      next
        case (Inr ch)
        with assms Some resp True
        have "snd (fetchToken e ch (rewrite_scope d (searchParams_get u ''scope'')) a) = [t]"
          by (simp add: auth_calls)
        then show ?thesis
          by (cases "URL e (realm ch)")
             (auto simp: fetchToken_calls present_def split: option.splits)
      qed
    qed
  qed
qed

text \<open>
  Claim C4. With the default registry as the upstream, a scope of three pieces between
  colons whose middle piece has no slash gets \<^verbatim>\<open>library/\<close> before that piece, and one
  whose middle piece has a slash stays as it is; with any other upstream every scope
  stays as it is; and the scope set on the call to the token realm is the scope so
  rewritten.
\<close>

theorem scope_rewriting:
  "(str_split CHR '':'' scope = [kind, name, actions] \<and> CHR ''/'' \<notin> set name
    \<longrightarrow> rewrite_scope True (Some scope)
          = Some (kind @ '':library/'' @ name @ '':'' @ actions))
   \<and> (str_split CHR '':'' scope = [kind, name, actions] \<and> CHR ''/'' \<in> set name
    \<longrightarrow> rewrite_scope True (Some scope) = Some scope)
   \<and> rewrite_scope True (Some ''repository:busybox:pull'')
       = Some ''repository:library/busybox:pull''
   \<and> rewrite_scope True (Some ''repository:library/busybox:pull'')
       = Some ''repository:library/busybox:pull''
   \<and> rewrite_scope False sc = sc
   \<and> (truthy (routeByHosts cfg (req_hostname req)) \<and> req_url req = Some u
       \<and> pathname u = ''/v2/auth'' \<and> snd (app e cfg req) = [dc, t]
    \<longrightarrow> map_of (fr_params t) ''scope''
          = (if present (rewrite_scope (routeByHosts cfg (req_hostname req) = Str dockerHub)
                           (searchParams_get u ''scope''))
             then rewrite_scope (routeByHosts cfg (req_hostname req) = Str dockerHub)
                    (searchParams_get u ''scope'')
             else None))"
proof (intro conjI impI)
  assume a: "str_split CHR '':'' scope = [kind, name, actions] \<and> CHR ''/'' \<notin> set name"
  then have "scope \<noteq> []" by auto
  with a show "rewrite_scope True (Some scope)
                 = Some (kind @ '':library/'' @ name @ '':'' @ actions)"
    by (simp add: rewrite_scope_def present_def)
next
  assume a: "str_split CHR '':'' scope = [kind, name, actions] \<and> CHR ''/'' \<in> set name"
  then show "rewrite_scope True (Some scope) = Some scope"
    by (simp add: rewrite_scope_def present_def)
next
  show "rewrite_scope True (Some ''repository:busybox:pull'')
          = Some ''repository:library/busybox:pull''"
    by (simp add: rewrite_scope_def present_def)
next
  show "rewrite_scope True (Some ''repository:library/busybox:pull'')
          = Some ''repository:library/busybox:pull''"
    by (simp add: rewrite_scope_def present_def)
next
  show "rewrite_scope False sc = sc"
    by (simp add: rewrite_scope_def)
next
  assume a: "truthy (routeByHosts cfg (req_hostname req)) \<and> req_url req = Some u
       \<and> pathname u = ''/v2/auth'' \<and> snd (app e cfg req) = [dc, t]"
  let ?up = "routeByHosts cfg (req_hostname req)"
  have "handle e cfg req =
          auth e ?up (?up = Str dockerHub) u (req_headers req ''authorization'')"
    using a by (intro handle_auth) simp_all
  with a have "snd (auth e ?up (?up = Str dockerHub) u (req_headers req ''authorization''))
                 = [dc, t]"
    by (simp add: snd_app)
  then show "map_of (fr_params t) ''scope''
          = (if present (rewrite_scope (?up = Str dockerHub) (searchParams_get u ''scope''))
             then rewrite_scope (?up = Str dockerHub) (searchParams_get u ''scope'')
             else None)"
    by (rule auth_token_scope)
qed

theorem scope_rewriting_witness:
  "str_split CHR '':'' ''repository:busybox:pull'' = [''repository'', ''busybox'', ''pull'']
   \<and> rewrite_scope True (Some ''repository:busybox:pull'')
       = Some ''repository:library/busybox:pull''
   \<and> str_split CHR '':'' ''repository:library/busybox:pull''
       = [''repository'', ''library/busybox'', ''pull'']
   \<and> rewrite_scope True (Some ''repository:library/busybox:pull'')
       = Some ''repository:library/busybox:pull''
   \<and> map (\<lambda>rq. map_of (fr_params rq) ''scope'')
         (snd (app example_env production
                 (get_request ''docker.example.com'' [] Map.empty ''/v2/auth''
                    (Some ''scope=repository:busybox:pull'')
                    [(''scope'', ''repository:busybox:pull'')])))
       = [None, Some ''repository:library/busybox:pull'']
   \<and> routeByHosts production ''k8s.example.com'' \<noteq> Str dockerHub
   \<and> map (\<lambda>rq. map_of (fr_params rq) ''scope'')
         (snd (app example_env production
                 (get_request ''k8s.example.com'' [] Map.empty ''/v2/auth''
                    (Some ''scope=repository:pause:pull'') [(''scope'', ''repository:pause:pull'')])))
       = [None, Some ''repository:pause:pull'']"
  using
    scope_rewriting
      [where scope = "''repository:busybox:pull''" and kind = "''repository''"
         and name = "''busybox''" and actions = "''pull''"
         and cfg = production and e = example_env
         and req = "get_request ''docker.example.com'' [] Map.empty ''/v2/auth''
                      (Some ''scope=repository:busybox:pull'')
                      [(''scope'', ''repository:busybox:pull'')]"
         and u = "client_url ''docker.example.com'' [] ''/v2/auth''
                    (Some ''scope=repository:busybox:pull'')
                    [(''scope'', ''repository:busybox:pull'')]"
         and dc = "\<lparr>fr_url = registry_url ''registry-1.docker.io'' ''/v2/'', fr_params = [],
                    fr_method = ''GET'', fr_headers = Map.empty, fr_body = None\<rparr>"
         and t = "\<lparr>fr_url = registry_url ''auth.docker.io'' ''/token'',
                   fr_params =
                     [(''service'', ''registry.docker.io''),
                      (''scope'', ''repository:library/busybox:pull'')],
                   fr_method = ''GET'', fr_headers = Map.empty, fr_body = None\<rparr>"]
    scope_rewriting
      [where scope = "''repository:library/busybox:pull''" and kind = "''repository''"
         and name = "''library/busybox''" and actions = "''pull''"
         and cfg = production and e = example_env
         and req = "get_request ''k8s.example.com'' [] Map.empty ''/v2/auth''
                      (Some ''scope=repository:pause:pull'') [(''scope'', ''repository:pause:pull'')]"
         and u = "client_url ''k8s.example.com'' [] ''/v2/auth''
                    (Some ''scope=repository:pause:pull'') [(''scope'', ''repository:pause:pull'')]"
         and dc = "\<lparr>fr_url = registry_url ''registry.k8s.io'' ''/v2/'', fr_params = [],
                    fr_method = ''GET'', fr_headers = Map.empty, fr_body = None\<rparr>"
         and t = "\<lparr>fr_url = registry_url ''auth.docker.io'' ''/token'',
                   fr_params =
                     [(''service'', ''registry.docker.io''),
                      (''scope'', ''repository:pause:pull'')],
                   fr_method = ''GET'', fr_headers = Map.empty, fr_body = None\<rparr>"]
  by (simp add: client_url_sel get_request_sel route_docker route_k8s dockerHub_nonempty
        dockerHub_def token_anonymous token_other_registry)

subsection \<open>A challenge that cannot be parsed\<close>

text \<open>
  When the registry answers the discovery call with a 401 whose challenge the parser
  refuses, the client gets the fixed 500 reply, and the token realm is not called.
\<close>

lemma malformed_challenge_internal_error:
  assumes "truthy (routeByHosts cfg (req_hostname req))" and "req_url req = Some u"
    and "pathname u = ''/v2/auth''"
    and "URL e (to_str (routeByHosts cfg (req_hostname req)) @ ''/v2/'') = Some newUrl"
    and "fetch e \<lparr>fr_url = newUrl, fr_params = [], fr_method = ''GET'',
                   fr_headers = Map.empty, fr_body = None\<rparr> = Some resp"
    and "status resp = 401"
    and "headers resp ''www-authenticate'' = Some hdr" and "hdr \<noteq> []"
    and "parseAuthenticate hdr = Inl err"
  shows "app e cfg req =
           (Send 500 ''Internal Server Error'',
            [\<lparr>fr_url = newUrl, fr_params = [], fr_method = ''GET'', fr_headers = Map.empty,
              fr_body = None\<rparr>])"
proof -
  have "handle e cfg req =
          auth e (routeByHosts cfg (req_hostname req))
            (routeByHosts cfg (req_hostname req) = Str dockerHub) u
            (req_headers req ''authorization'')"
    using assms(1-3) by (rule handle_auth)
  with assms(4-9) show ?thesis
    by (simp add: app_def auth_def do_fetch_def present_def)
qed

end
